theory Spec2Isabelle
  imports Main
begin

section \<open>The resource store of lib/ldp.js\<close>

text \<open>
  The class \<open>LDP\<close> of \<open>src/lib/ldp.js\<close> orchestrates a filesystem, an advisory lock
  manager, a quota oracle and a resource mapper. The model is sequential: one operation
  runs alone against a state that holds the filesystem, the set of held locks and the
  trace of collaborator calls the operation has made. Every \<open>await\<close> of the source is a
  step of explicit state passing; every \<open>throw\<close> and every rejected promise is a value
  \<open>Inl\<close> of the result. Collaborators that are not part of the file (the resource
  mapper, the quota oracle, the RDF library, \<open>decodeURIComponent\<close>, \<open>uuid\<close>, \<open>urijs\<close>,
  \<open>path\<close>) are fields of an environment record, so every theorem holds for each of
  their possible behaviours.

  What the model fixes about the world outside the file: Node's filesystem calls act on
  a disk of files and directories and may each fail with an I/O error chosen by the
  environment; a lock is refused when it is held; the release function of a lock
  succeeds; and the streams emit one of the events the source listens to.
\<close>

subsection \<open>Errors\<close>

type_synonym path = string

text \<open>An error object raised by a collaborator or by Node: its \<open>code\<close>, its \<open>status\<close>
  (absent on a plain I/O error) and its \<open>message\<close>.\<close>

datatype raw_error = RawError (ecode: string) (estatus: "nat option") (emessage: string)

text \<open>
  What an operation rejects with. \<open>HTTPError n m\<close> is \<open>error(n, m)\<close> with a numeric
  status; \<open>StatuslessError m\<close> is \<open>error(undefined, m)\<close>; \<open>Wrapped e m\<close> is
  \<open>error(e, m)\<close> around a raw error object; \<open>Thrown e\<close> is a raw error that propagates
  as it was raised. A message that the source extends with a dynamic suffix keeps its
  static part only.
\<close>

datatype err =
    HTTPError nat string
  | StatuslessError string
  | Wrapped raw_error string
  | Thrown raw_error

text \<open>
  Modelled from the spec: the module \<open>./http-error\<close> is not among the sources. The spec
  (sections 4.2, 4.6 and 7) calls a wrapped internal failure a ServerError, so the status
  of \<open>error(e, m)\<close> is 500; a numeric status is kept as given.
\<close>

fun status_of :: "err \<Rightarrow> nat option" where
  "status_of (HTTPError n m) = Some n"
| "status_of (StatuslessError m) = None"
| "status_of (Wrapped e m) = Some 500"
| "status_of (Thrown e) = estatus e"

subsection \<open>Requests, the environment and the state\<close>

text \<open>The options object that \<open>get\<close> and \<open>exists\<close> pass around, and the request object a
  handler passes to \<open>put\<close>; \<open>req_url\<close> is its \<open>url\<close> property.\<close>

record request =
  req_url :: "string option"
  req_hostname :: string
  req_path :: string
  req_includeBody :: bool
  req_range :: "string option"

text \<open>A target is a string or such an object.\<close>

datatype target = UrlString string | UrlObject request

text \<open>The argument of \<open>resourceMapper.mapUrlToFile\<close>.\<close>

record map_request =
  m_url :: target
  m_contentType :: "string option"
  m_createIfNotExists :: bool
  m_searchIndex :: "bool option"

text \<open>Every call to a collaborator is recorded as an event; the query of the quota
  oracle is recorded with its answer.\<close>

datatype event =
    EvMapUrlToFile map_request
  | EvMapFileToUrl path string
  | EvOverQuota "raw_error + bool"
  | EvStat path
  | EvStatSync path
  | EvReadFile path
  | EvCreateReadStream path
  | EvCreateWriteStream path
  | EvMkdirp path
  | EvReaddir path
  | EvRimraf path
  | EvUnlink path
  | EvLock path
  | EvRelease path
  | EvUuid
  | EvAddContainerStats path
  | EvAddFile path string

text \<open>
  The environment: the configuration of the constructor (\<open>suffixAcl\<close>, \<open>suffixMeta\<close>,
  \<open>serverUri\<close>, the mapper's \<open>rootPath\<close>) and the collaborators. \<open>fault\<close> lets any
  filesystem or lock call fail with an I/O error; \<open>write_cutoff\<close> is the number of bytes
  a write stream stores before it emits \<open>error\<close> (\<open>None\<close>: it finishes). The type \<open>'g\<close> is
  the RDF library's graph.
\<close>

record 'g env =
  suffixAcl :: string
  suffixMeta :: string
  serverUri :: string
  rootPath :: string
  mapUrlToFile :: "map_request \<Rightarrow> raw_error + (path \<times> string)"
  mapFileToUrl :: "path \<Rightarrow> string \<Rightarrow> raw_error + (string \<times> string)"
  overQuota :: "string \<Rightarrow> string \<Rightarrow> raw_error + bool"
  decodeURIComponent :: "string \<Rightarrow> raw_error + string"
  uuid_v1 :: "nat \<Rightarrow> string"
  joinPaths :: "string \<Rightarrow> string \<Rightarrow> string"
  path_join :: "string \<Rightarrow> string \<Rightarrow> string"
  dirname :: "string \<Rightarrow> string"
  fault :: "event \<Rightarrow> raw_error option"
  write_cutoff :: "path \<Rightarrow> nat option"
  rdf_parse :: "string \<Rightarrow> string \<Rightarrow> raw_error + 'g"
  addContainerStats :: "string \<Rightarrow> path \<Rightarrow> 'g \<Rightarrow> raw_error + 'g"
  addFile :: "'g \<Rightarrow> string \<Rightarrow> string \<Rightarrow> path \<Rightarrow> string \<Rightarrow> raw_error + 'g"
  serialize :: "'g \<Rightarrow> string \<Rightarrow> raw_error + string"

datatype node = File string | Directory

type_synonym filesystem = "(path \<times> node) list"

record state =
  files :: filesystem
  locks :: "path set"
  trace :: "event list"
  uuids :: nat

definition emit :: "event \<Rightarrow> state \<Rightarrow> state" where
  "emit e s = s\<lparr>trace := trace s @ [e]\<rparr>"

subsection \<open>Strings\<close>

definition endsWith :: "string \<Rightarrow> string \<Rightarrow> bool" where
  "endsWith s t = (take (length t) (rev s) = rev t)"

text \<open>A path with the separator added when it does not end with it.\<close>

definition with_slash :: "string \<Rightarrow> string" where
  "with_slash d = (if endsWith d ''/'' then d else d @ ''/'')"

definition truthy :: "string option \<Rightarrow> bool" where
  "truthy v = (case v of None \<Rightarrow> False | Some x \<Rightarrow> x \<noteq> [])"

text \<open>The string a value that may be \<open>undefined\<close> stands for, in a concatenation or
  as the receiver of a string method once it is known to be truthy.\<close>

definition js_string :: "string option \<Rightarrow> string" where
  "js_string v = (case v of None \<Rightarrow> ''undefined'' | Some x \<Rightarrow> x)"

subsection \<open>The filesystem\<close>

text \<open>
  The disk is a list of entries keyed by path without trailing separators. A path that
  names a file and ends with the separator does not resolve.
\<close>

definition fs_key :: "path \<Rightarrow> path" where
  "fs_key p =
     (let q = rev (dropWhile (\<lambda>c. c = CHR ''/'') (rev p))
      in if q = [] \<and> p \<noteq> [] then ''/'' else q)"

definition node_at :: "filesystem \<Rightarrow> path \<Rightarrow> node option" where
  "node_at fs p =
     (case map_of fs (fs_key p) of
        Some (File c) \<Rightarrow> if endsWith p ''/'' then None else Some (File c)
      | r \<Rightarrow> r)"

definition fs_store :: "path \<Rightarrow> node \<Rightarrow> filesystem \<Rightarrow> filesystem" where
  "fs_store p n fs = (fs_key p, n) # filter (\<lambda>kv. fst kv \<noteq> fs_key p) fs"

definition dir_prefix :: "path \<Rightarrow> path" where
  "dir_prefix d = (if fs_key d = ''/'' then ''/'' else fs_key d @ ''/'')"

text \<open>A key lies within a directory when it is the directory or is below it.\<close>

definition within :: "path \<Rightarrow> path \<Rightarrow> bool" where
  "within d k = (k = fs_key d \<or> take (length (dir_prefix d)) k = dir_prefix d)"

definition dir_entries :: "filesystem \<Rightarrow> path \<Rightarrow> string list" where
  "dir_entries fs d =
     (let n = length (dir_prefix d)
      in [drop n k. k \<leftarrow> map fst fs, take n k = dir_prefix d, drop n k \<noteq> [],
            CHR ''/'' \<notin> set (drop n k)])"

text \<open>The directory and its ancestors, outermost first (the root is never created).\<close>

definition dir_chain :: "path \<Rightarrow> path list" where
  "dir_chain d =
     (let k = fs_key d
      in remdups [fs_key (take i k). i \<leftarrow> [1..<Suc (length k)],
                    i = length k \<or> k ! i = CHR ''/'', fs_key (take i k) \<noteq> ''/''])"

definition ENOENT :: raw_error where
  "ENOENT = RawError ''ENOENT'' None ''no such file or directory''"

definition ELOCKED :: raw_error where
  "ELOCKED = RawError ''ELOCKED'' None ''Lock file is already being held''"

definition ENOTDIR :: raw_error where
  "ENOTDIR = RawError ''ENOTDIR'' None ''not a directory''"

definition EISDIR :: raw_error where
  "EISDIR = RawError ''EISDIR'' None ''illegal operation on a directory''"

definition EIO :: raw_error where
  "EIO = RawError ''EIO'' None ''i/o error''"

definition EEXIST :: raw_error where
  "EEXIST = RawError ''EEXIST'' None ''file already exists''"

text \<open>\<open>fs.stat\<close>: what the code reads of the result is \<open>isDirectory()\<close> and \<open>size\<close>.\<close>

record stats =
  isDirectory :: bool
  st_size :: nat

definition stats_of :: "node \<Rightarrow> stats" where
  "stats_of n =
     (case n of File c \<Rightarrow> \<lparr>isDirectory = False, st_size = length c\<rparr>
      | Directory \<Rightarrow> \<lparr>isDirectory = True, st_size = 0\<rparr>)"

definition fs_stat :: "'g env \<Rightarrow> path \<Rightarrow> state \<Rightarrow> (raw_error + stats) \<times> state" where
  "fs_stat env p s =
     (let s1 = emit (EvStat p) s
      in case fault env (EvStat p) of
           Some e \<Rightarrow> (Inl e, s1)
         | None \<Rightarrow>
             (case node_at (files s1) p of
                None \<Rightarrow> (Inl ENOENT, s1)
              | Some n \<Rightarrow> (Inr (stats_of n), s1)))"

text \<open>\<open>mkdirp\<close>: creates the directory and its missing ancestors; fails when one of
  them is a file.\<close>

definition fs_mkdirp :: "'g env \<Rightarrow> path \<Rightarrow> state \<Rightarrow> (raw_error + unit) \<times> state" where
  "fs_mkdirp env d s =
     (let s1 = emit (EvMkdirp d) s
      in case fault env (EvMkdirp d) of
           Some e \<Rightarrow> (Inl e, s1)
         | None \<Rightarrow>
             if list_ex (\<lambda>q. map_of (files s1) (fs_key q) \<notin> {None, Some Directory})
                  (dir_chain d)
             then (Inl EEXIST, s1)
             else (Inr (), s1\<lparr>files := foldl (\<lambda>fs q. fs_store q Directory fs) (files s1) (dir_chain d)\<rparr>))"

text \<open>
  \<open>stream.pipe(fs.createWriteStream(path))\<close>: the file is opened for writing, which
  truncates it, and the bytes of the input stream are stored in order. The write stream
  emits \<open>error\<close> when the open fails (the file is then untouched) or after
  \<open>write_cutoff\<close> bytes, and \<open>finish\<close> otherwise. \<open>Inl\<close> is the \<open>error\<close> event. These
  are the two events \<open>put\<close> subscribes to; an input stream that never ends, on which the
  promise of \<open>put\<close> would not settle, is outside the model.
\<close>

definition pipe_to_file :: "'g env \<Rightarrow> string \<Rightarrow> path \<Rightarrow> state \<Rightarrow> (raw_error + unit) \<times> state" where
  "pipe_to_file env data p s =
     (let s1 = emit (EvCreateWriteStream p) s
      in case fault env (EvCreateWriteStream p) of
           Some e \<Rightarrow> (Inl e, s1)
         | None \<Rightarrow>
             if map_of (files s1) (fs_key p) = Some Directory \<or> endsWith p ''/''
             then (Inl EISDIR, s1)
             else (case write_cutoff env p of
                     Some n \<Rightarrow>
                       (Inl EIO,
                        s1\<lparr>files := fs_store p (File (take n data)) (files s1)\<rparr>)
                   | None \<Rightarrow> (Inr (), s1\<lparr>files := fs_store p (File data) (files s1)\<rparr>)))"

subsection \<open>The lock manager\<close>

text \<open>
  \<open>lock(path, options)\<close> of proper-lockfile: it fails when the lock is held (the retries
  are spent, nobody else runs in this model), when \<open>realpath\<close> is not disabled and the
  file does not exist, or on an I/O fault. The release function it returns removes the
  lock.
\<close>

definition lock :: "'g env \<Rightarrow> path \<Rightarrow> bool \<Rightarrow> state \<Rightarrow> (raw_error + unit) \<times> state" where
  "lock env p realpath s =
     (let s1 = emit (EvLock p) s
      in case fault env (EvLock p) of
           Some e \<Rightarrow> (Inl e, s1)
         | None \<Rightarrow>
             if realpath \<and> node_at (files s1) p = None then (Inl ENOENT, s1)
             else if p \<in> locks s1 then (Inl ELOCKED, s1)
             else (Inr (), s1\<lparr>locks := insert p (locks s1)\<rparr>))"

definition releaseLock :: "path \<Rightarrow> state \<Rightarrow> state" where
  "releaseLock p s = (emit (EvRelease p) s)\<lparr>locks := locks s - {p}\<rparr>"

subsection \<open>put\<close>

text \<open>\<open>(url.url || url)\<close>: for an object without a \<open>url\<close> the value is the object
  itself, which has no \<open>endsWith\<close>.\<close>

definition url_of :: "target \<Rightarrow> string option" where
  "url_of t =
     (case t of UrlString u \<Rightarrow> Some u
      | UrlObject r \<Rightarrow> (if truthy (req_url r) then req_url r else None))"

definition TypeError :: raw_error where
  "TypeError = RawError ''TypeError'' None ''endsWith is not a function''"

text \<open>Lines 238 to 257: the lock is taken without \<open>realpath\<close>, the stream is piped to
  the file, and the \<open>finally\<close> block releases the lock when it was taken.\<close>

definition put_write :: "'g env \<Rightarrow> path \<Rightarrow> string \<Rightarrow> state \<Rightarrow> (err + unit) \<times> state" where
  "put_write env p data s =
     (case lock env p False s of
        (Inl e, s1) \<Rightarrow> (Inl (Thrown e), s1)
      | (Inr u, s1) \<Rightarrow>
          (case pipe_to_file env data p s1 of
             (Inl e, s2) \<Rightarrow> (Inl (HTTPError 500 ''Error writing data''), releaseLock p s2)
           | (Inr v, s2) \<Rightarrow> (Inr (), releaseLock p s2)))"

text \<open>Lines 203 to 236: the two guards, the quota gate, the mapping of the target and
  the creation of the enclosing directory. The result is the path to write.\<close>

definition put_prepare :: "'g env \<Rightarrow> target \<Rightarrow> string option \<Rightarrow> state \<Rightarrow> (err + path) \<times> state" where
  "put_prepare env url contentType s =
     (case url_of url of
        None \<Rightarrow> (Inl (Thrown TypeError), s)
      | Some u \<Rightarrow>
          if endsWith u ''/''
          then (Inl (HTTPError 409 ''PUT not supported on containers, use POST instead''), s)
          else if \<not> truthy contentType
          then (Inl (HTTPError 415
                  ''PUT request require a valid content type via the Content-Type header''), s)
          else
            (let s1 = emit (EvOverQuota (overQuota env (rootPath env) (serverUri env))) s
             in case overQuota env (rootPath env) (serverUri env) of
                  Inl e \<Rightarrow> (Inl (HTTPError 500 ''Error finding user quota''), s1)
                | Inr True \<Rightarrow> (Inl (HTTPError 413 ''User has exceeded their storage quota''), s1)
                | Inr False \<Rightarrow>
                    (let rq = \<lparr>m_url = url, m_contentType = contentType,
                               m_createIfNotExists = True, m_searchIndex = None\<rparr>;
                         s2 = emit (EvMapUrlToFile rq) s1
                     in case mapUrlToFile env rq of
                          Inl e \<Rightarrow> (Inl (Thrown e), s2)
                        | Inr (p, ct) \<Rightarrow>
                            (case fs_mkdirp env (dirname env p) s2 of
                               (Inl e, s3) \<Rightarrow>
                                 (Inl (Wrapped e ''Failed to create the path to the new resource''), s3)
                             | (Inr u, s3) \<Rightarrow> (Inr p, s3)))))"

definition put :: "'g env \<Rightarrow> target \<Rightarrow> string \<Rightarrow> string option \<Rightarrow> state \<Rightarrow> (err + unit) \<times> state" where
  "put env url stream contentType s =
     (case put_prepare env url contentType s of
        (Inl e, s1) \<Rightarrow> (Inl e, s1)
      | (Inr p, s1) \<Rightarrow> put_write env p stream s1)"

subsection \<open>readResource and readContainerMeta\<close>

definition fs_readFile :: "'g env \<Rightarrow> path \<Rightarrow> state \<Rightarrow> (raw_error + string) \<times> state" where
  "fs_readFile env p s =
     (let s1 = emit (EvReadFile p) s
      in case fault env (EvReadFile p) of
           Some e \<Rightarrow> (Inl e, s1)
         | None \<Rightarrow>
             (case node_at (files s1) p of
                None \<Rightarrow> (Inl ENOENT, s1)
              | Some Directory \<Rightarrow> (Inl EISDIR, s1)
              | Some (File c) \<Rightarrow> (Inr c, s1)))"

text \<open>\<open>error(err.status, err.message)\<close> in the \<open>catch\<close> block of \<open>readResource\<close>.\<close>

definition rethrow :: "raw_error \<Rightarrow> err" where
  "rethrow e =
     (case estatus e of Some n \<Rightarrow> HTTPError n (emessage e)
      | None \<Rightarrow> StatuslessError (emessage e))"

definition readResource :: "'g env \<Rightarrow> string \<Rightarrow> state \<Rightarrow> (err + string) \<times> state" where
  "readResource env url s =
     (let rq = \<lparr>m_url = UrlString url, m_contentType = None,
                m_createIfNotExists = False, m_searchIndex = None\<rparr>;
          s1 = emit (EvMapUrlToFile rq) s
      in case mapUrlToFile env rq of
           Inl e \<Rightarrow> (Inl (rethrow e), s1)
         | Inr (p, ct) \<Rightarrow>
             (case lock env p True s1 of
                (Inl e, s2) \<Rightarrow> (Inl (rethrow e), s2)
              | (Inr u, s2) \<Rightarrow>
                  (case fs_readFile env p s2 of
                     (Inl e, s3) \<Rightarrow> (Inl (rethrow e), releaseLock p s3)
                   | (Inr body, s3) \<Rightarrow> (Inr body, releaseLock p s3))))"

definition readContainerMeta :: "'g env \<Rightarrow> string \<Rightarrow> state \<Rightarrow> (err + string) \<times> state" where
  "readContainerMeta env url s =
     readResource env (with_slash url @ suffixMeta env) s"

subsection \<open>listContainer\<close>

definition fs_readdir :: "'g env \<Rightarrow> path \<Rightarrow> state \<Rightarrow> (raw_error + string list) \<times> state" where
  "fs_readdir env d s =
     (let s1 = emit (EvReaddir d) s
      in case fault env (EvReaddir d) of
           Some e \<Rightarrow> (Inl e, s1)
         | None \<Rightarrow>
             (case node_at (files s1) d of
                None \<Rightarrow> (Inl ENOENT, s1)
              | Some (File c) \<Rightarrow> (Inl ENOTDIR, s1)
              | Some Directory \<Rightarrow> (Inr (dir_entries (files s1) d), s1)))"

text \<open>The body of \<open>Promise.all(files.map(...))\<close>, one file after the other.\<close>

fun add_files ::
  "'g env \<Rightarrow> string \<Rightarrow> path \<Rightarrow> string \<Rightarrow> string list \<Rightarrow> 'g \<Rightarrow> state \<Rightarrow> (raw_error + 'g) \<times> state"
where
  "add_files env reqUri container hostname [] g s = (Inr g, s)"
| "add_files env reqUri container hostname (f # fs) g s =
     (let p = path_join env container f;
          s1 = emit (EvMapFileToUrl p hostname) s
      in case mapFileToUrl env p hostname of
           Inl e \<Rightarrow> (Inl e, s1)
         | Inr (fileUri, ct) \<Rightarrow>
             (let s2 = emit (EvAddFile container f) s1
              in case addFile env g reqUri fileUri container f of
                   Inl e \<Rightarrow> (Inl e, s2)
                 | Inr g' \<Rightarrow> add_files env reqUri container hostname fs g' s2))"

definition listContainer ::
  "'g env \<Rightarrow> path \<Rightarrow> string \<Rightarrow> string \<Rightarrow> string \<Rightarrow> state \<Rightarrow> (err + string) \<times> state"
where
  "listContainer env container reqUri containerData hostname s =
     (case rdf_parse env containerData reqUri of
        Inl e \<Rightarrow> (Inl (HTTPError 500 ''Can't parse container''), s)
      | Inr g0 \<Rightarrow>
          (let s1 = emit (EvAddContainerStats container) s
           in case addContainerStats env reqUri container g0 of
                Inl e \<Rightarrow> (Inl (HTTPError 500 ''Can't list container''), s1)
              | Inr g1 \<Rightarrow>
                  (case fs_readdir env container s1 of
                     (Inl e, s2) \<Rightarrow> (Inl (HTTPError 500 ''Can't list container''), s2)
                   | (Inr fs, s2) \<Rightarrow>
                       (case add_files env reqUri container hostname fs g1 s2 of
                          (Inl e, s3) \<Rightarrow> (Inl (HTTPError 500 ''Can't list container''), s3)
                        | (Inr g2, s3) \<Rightarrow>
                            (case serialize env g2 reqUri of
                               Inl e \<Rightarrow> (Inl (HTTPError 500 ''Can't serialize container''), s3)
                             | Inr text \<Rightarrow> (Inr text, s3))))))"

subsection \<open>get\<close>

text \<open>A JavaScript number as the code meets it: an integer or \<open>NaN\<close> (values stay far
  below \<open>2^53\<close>, where the doubles are exact).\<close>

datatype jsnum = Num int | NaN

definition num_sub :: "jsnum \<Rightarrow> jsnum \<Rightarrow> jsnum" where
  "num_sub a b = (case (a, b) of (Num i, Num j) \<Rightarrow> Num (i - j) | _ \<Rightarrow> NaN)"

definition num_add :: "jsnum \<Rightarrow> jsnum \<Rightarrow> jsnum" where
  "num_add a b = (case (a, b) of (Num i, Num j) \<Rightarrow> Num (i + j) | _ \<Rightarrow> NaN)"

fun show_nat :: "nat \<Rightarrow> string" where
  "show_nat n =
     (if n < 10 then [char_of (48 + n)]
      else show_nat (n div 10) @ [char_of (48 + n mod 10)])"

definition show_num :: "jsnum \<Rightarrow> string" where
  "show_num v =
     (case v of NaN \<Rightarrow> ''NaN''
      | Num i \<Rightarrow> if i < 0 then CHR ''-'' # show_nat (nat (- i)) else show_nat (nat i))"

text \<open>\<open>String.prototype.replace\<close> with a pattern without the global flag: the first
  occurrence is removed. \<open>split\<close> cuts at every separator.\<close>

fun remove_first :: "string \<Rightarrow> string \<Rightarrow> string" where
  "remove_first pat [] = []"
| "remove_first pat (c # cs) =
     (if take (length pat) (c # cs) = pat then drop (length pat) (c # cs)
      else c # remove_first pat cs)"

fun split_on :: "char \<Rightarrow> string \<Rightarrow> string list" where
  "split_on d [] = [[]]"
| "split_on d (c # cs) =
     (if c = d then [] # split_on d cs
      else (case split_on d cs of [] \<Rightarrow> [[c]] | x # xs \<Rightarrow> (c # x) # xs))"

text \<open>\<open>parseInt(s, 10)\<close>: leading white space, a sign, then the longest run of decimal
  digits; \<open>NaN\<close> when there is none.\<close>

definition is_space :: "char \<Rightarrow> bool" where
  "is_space c = (of_char c \<in> {9, 10, 11, 12, 13, 32 :: nat})"

definition is_digit :: "char \<Rightarrow> bool" where
  "is_digit c = (48 \<le> (of_char c :: nat) \<and> (of_char c :: nat) \<le> 57)"

definition digits_value :: "string \<Rightarrow> nat" where
  "digits_value ds = foldl (\<lambda>a c. 10 * a + (of_char c - 48)) 0 ds"

definition parseInt :: "string \<Rightarrow> jsnum" where
  "parseInt s =
     (let t = dropWhile is_space s;
          neg = (t \<noteq> [] \<and> hd t = CHR ''-'');
          u = (if t \<noteq> [] \<and> (hd t = CHR ''-'' \<or> hd t = CHR ''+'') then tl t else t);
          ds = takeWhile is_digit u
      in if ds = [] then NaN
         else Num ((if neg then - 1 else 1) * int (digits_value ds)))"

datatype body = StatsBody stats | StreamBody string

record get_result =
  r_stream :: body
  r_contentType :: string
  r_container :: bool
  r_contentRange :: "string option"
  r_chunksize :: "jsnum option"

text \<open>\<open>LDP.stat\<close>, lines 70 to 77.\<close>

definition stat :: "'g env \<Rightarrow> path \<Rightarrow> state \<Rightarrow> (err + stats) \<times> state" where
  "stat env file s =
     (case fs_stat env file s of
        (Inl e, s1) \<Rightarrow> (Inl (Wrapped e (''Can't read metadata of '' @ file)), s1)
      | (Inr st, s1) \<Rightarrow> (Inr st, s1))"

text \<open>\<open>fs.statSync(path).size\<close>.\<close>

definition fs_statSync :: "'g env \<Rightarrow> path \<Rightarrow> state \<Rightarrow> (raw_error + stats) \<times> state" where
  "fs_statSync env p s =
     (let s1 = emit (EvStatSync p) s
      in case fault env (EvStatSync p) of
           Some e \<Rightarrow> (Inl e, s1)
         | None \<Rightarrow>
             (case node_at (files s1) p of
                None \<Rightarrow> (Inl ENOENT, s1)
              | Some n \<Rightarrow> (Inr (stats_of n), s1)))"

text \<open>
  \<open>fs.createReadStream(path, options)\<close>. With \<open>{start, end}\<close> the stream yields the
  bytes at the offsets \<open>start\<close> to \<open>end\<close>, both included; Node throws a RangeError from
  the constructor when \<open>start\<close> exceeds \<open>end\<close>. With \<open>{}\<close> it yields the whole file. The
  result is the outcome of the constructor and of the first event: the string is what
  the stream yields once \<open>open\<close> has been emitted.
\<close>

datatype read_outcome = Throws raw_error | ErrorEvent raw_error | Opened string

definition RangeError :: raw_error where
  "RangeError = RawError ''ERR_OUT_OF_RANGE'' None ''The value of start is out of range''"

definition slice_bytes :: "int \<Rightarrow> int \<Rightarrow> string \<Rightarrow> string" where
  "slice_bytes a b c = take (nat (b - a + 1)) (drop (nat a) c)"

definition createReadStream ::
  "'g env \<Rightarrow> path \<Rightarrow> (int \<times> int) option \<Rightarrow> state \<Rightarrow> read_outcome \<times> state"
where
  "createReadStream env p opts s =
     (let s1 = emit (EvCreateReadStream p) s
      in if (case opts of Some (a, b) \<Rightarrow> b < a \<or> a < 0 | None \<Rightarrow> False)
         then (Throws RangeError, s1)
         else (case fault env (EvCreateReadStream p) of
                 Some e \<Rightarrow> (ErrorEvent e, s1)
               | None \<Rightarrow>
                   (case node_at (files s1) p of
                      None \<Rightarrow> (ErrorEvent ENOENT, s1)
                    | Some Directory \<Rightarrow> (ErrorEvent EISDIR, s1)
                    | Some (File c) \<Rightarrow>
                        (Opened (case opts of Some (a, b) \<Rightarrow> slice_bytes a b c | None \<Rightarrow> c), s1))))"

text \<open>Lines 363 to 370: the byte range of the request. The result is \<open>start\<close>, \<open>end\<close>,
  \<open>chunksize\<close> and \<open>contentRange\<close>.\<close>

definition parse_range :: "string \<Rightarrow> nat \<Rightarrow> jsnum \<times> jsnum \<times> jsnum \<times> string" where
  "parse_range rng tot =
     (let parts = split_on CHR ''-'' (remove_first ''bytes='' rng);
          partialstart = hd parts;
          partialend = (if 1 < length parts then Some (parts ! 1) else None);
          start = parseInt partialstart;
          end' = (case partialend of
                    None \<Rightarrow> Num (int tot - 1)
                  | Some e \<Rightarrow> if e \<noteq> [] then parseInt e else Num (int tot - 1));
          chunksize = num_add (num_sub end' start) (Num 1);
          contentRange = ''bytes '' @ show_num start @ ''-'' @ show_num end' @ ''/''
                           @ show_nat tot
      in (start, end', chunksize, contentRange))"

text \<open>\<open>start && end ? {start, end} : {}\<close>; without a range both are \<open>undefined\<close>.\<close>

definition read_options :: "(jsnum \<times> jsnum) option \<Rightarrow> (int \<times> int) option" where
  "read_options se =
     (case se of
        Some (Num a, Num b) \<Rightarrow> if a \<noteq> 0 \<and> b \<noteq> 0 then Some (a, b) else None
      | _ \<Rightarrow> None)"

text \<open>Lines 360 to 392: the branch of \<open>get\<close> for a document.\<close>

definition get_document ::
  "'g env \<Rightarrow> request \<Rightarrow> path \<Rightarrow> string \<Rightarrow> state \<Rightarrow> (err + get_result) \<times> state"
where
  "get_document env options p contentType s =
     (case (if truthy (req_range options)
            then (case fs_statSync env p s of
                    (Inl e, s1) \<Rightarrow> (Inl e, s1)
                  | (Inr st, s1) \<Rightarrow>
                      (Inr (Some (parse_range (js_string (req_range options)) (st_size st))), s1))
            else (Inr None, s)) of
        (Inl e, s1) \<Rightarrow> (Inl (Thrown e), s1)
      | (Inr rg, s1) \<Rightarrow>
          (case lock env p True s1 of
             (Inl e, s2) \<Rightarrow> (Inl (Thrown e), s2)
           | (Inr u, s2) \<Rightarrow>
               (case createReadStream env p
                       (read_options (map_option (\<lambda>(a, b, c, d). (a, b)) rg)) s2 of
                  (Throws e, s3) \<Rightarrow> (Inl (Thrown e), releaseLock p s3)
                | (ErrorEvent e, s3) \<Rightarrow>
                    (Inl (Wrapped e ''Can't read file ''), releaseLock p s3)
                | (Opened bytes, s3) \<Rightarrow>
                    (Inr \<lparr>r_stream = StreamBody bytes, r_contentType = contentType,
                          r_container = False,
                          r_contentRange = map_option (\<lambda>(a, b, c, d). d) rg,
                          r_chunksize = map_option (\<lambda>(a, b, c, d). c) rg\<rparr>,
                     releaseLock p s3))))"

text \<open>Lines 344 to 359: the branch of \<open>get\<close> for a container. The \<open>catch\<close> on
  \<open>readContainerMeta\<close> turns every rejection into the empty string;
  \<open>stringToStream(data)\<close> is the stream that yields \<open>data\<close>.\<close>

definition get_container ::
  "'g env \<Rightarrow> request \<Rightarrow> path \<Rightarrow> state \<Rightarrow> (err + get_result) \<times> state"
where
  "get_container env options p s =
     (let s1 = emit (EvMapFileToUrl p (req_hostname options)) s
      in case mapFileToUrl env p (req_hostname options) of
           Inl e \<Rightarrow> (Inl (Thrown e), s1)
         | Inr (absContainerUri, ct) \<Rightarrow>
             (case (case readContainerMeta env absContainerUri s1 of
                      (Inl e, s2) \<Rightarrow> ([], s2)
                    | (Inr m, s2) \<Rightarrow> (m, s2)) of
                (metaFile, s2) \<Rightarrow>
                  (case listContainer env p absContainerUri metaFile (req_hostname options) s2 of
                     (Inl e, s3) \<Rightarrow> (Inl e, s3)
                   | (Inr data, s3) \<Rightarrow>
                       (Inr \<lparr>r_stream = StreamBody data, r_contentType = ''text/turtle'',
                             r_container = True, r_contentRange = None,
                             r_chunksize = None\<rparr>, s3))))"

definition get :: "'g env \<Rightarrow> request \<Rightarrow> bool \<Rightarrow> state \<Rightarrow> (err + get_result) \<times> state" where
  "get env options searchIndex s =
     (let rq = \<lparr>m_url = UrlObject options, m_contentType = None,
                m_createIfNotExists = False, m_searchIndex = Some searchIndex\<rparr>;
          s1 = emit (EvMapUrlToFile rq) s
      in case mapUrlToFile env rq of
           Inl e \<Rightarrow> (Inl (HTTPError 404 ''Can't find file requested: ''), s1)
         | Inr (p, contentType) \<Rightarrow>
             (case stat env p s1 of
                (Inl e, s2) \<Rightarrow> (Inl (HTTPError 404 ''Can't find file requested: ''), s2)
              | (Inr st, s2) \<Rightarrow>
                  if \<not> req_includeBody options
                  then (Inr \<lparr>r_stream = StatsBody st, r_contentType = contentType,
                             r_container = isDirectory st, r_contentRange = None,
                             r_chunksize = None\<rparr>, s2)
                  else if isDirectory st then get_container env options p s2
                  else get_document env options p contentType s2))"

definition exists :: "'g env \<Rightarrow> string \<Rightarrow> string \<Rightarrow> bool \<Rightarrow> state \<Rightarrow> (err + get_result) \<times> state" where
  "exists env hostname p searchIndex s =
     get env \<lparr>req_url = None, req_hostname = hostname, req_path = p,
              req_includeBody = False, req_range = None\<rparr> searchIndex s"

subsection \<open>delete\<close>

definition fs_rimraf :: "'g env \<Rightarrow> path \<Rightarrow> state \<Rightarrow> (raw_error + unit) \<times> state" where
  "fs_rimraf env d s =
     (let s1 = emit (EvRimraf d) s
      in case fault env (EvRimraf d) of
           Some e \<Rightarrow> (Inl e, s1)
         | None \<Rightarrow> (Inr (), s1\<lparr>files := filter (\<lambda>kv. \<not> within d (fst kv)) (files s1)\<rparr>))"

definition fs_unlink :: "'g env \<Rightarrow> path \<Rightarrow> state \<Rightarrow> (raw_error + unit) \<times> state" where
  "fs_unlink env p s =
     (let s1 = emit (EvUnlink p) s
      in case fault env (EvUnlink p) of
           Some e \<Rightarrow> (Inl e, s1)
         | None \<Rightarrow>
             (case node_at (files s1) p of
                None \<Rightarrow> (Inl ENOENT, s1)
              | Some Directory \<Rightarrow> (Inl EISDIR, s1)
              | Some (File c) \<Rightarrow>
                  (Inr (), s1\<lparr>files := filter (\<lambda>kv. fst kv \<noteq> fs_key p) (files s1)\<rparr>)))"

definition deleteContainer :: "'g env \<Rightarrow> path \<Rightarrow> state \<Rightarrow> (err + unit) \<times> state" where
  "deleteContainer env directory0 s =
     (let directory = with_slash directory0
      in case fs_readdir env directory s of
           (Inl e, s1) \<Rightarrow> (Inl (HTTPError 404 ''The container does not exist''), s1)
         | (Inr list, s1) \<Rightarrow>
             if list_ex (\<lambda>file. file \<noteq> suffixMeta env \<and> file \<noteq> suffixAcl env) list
             then (Inl (HTTPError 409 ''Container is not empty''), s1)
             else (case fs_rimraf env directory s1 of
                     (Inl e, s2) \<Rightarrow> (Inl (Wrapped e ''Failed to delete the container''), s2)
                   | (Inr u, s2) \<Rightarrow> (Inr (), s2)))"

definition deleteResource :: "'g env \<Rightarrow> path \<Rightarrow> state \<Rightarrow> (err + unit) \<times> state" where
  "deleteResource env p s =
     (case lock env p True s of
        (Inl e, s1) \<Rightarrow> (Inl (Wrapped e ''Failed to delete resource''), s1)
      | (Inr u, s1) \<Rightarrow>
          (case fs_unlink env p s1 of
             (Inl e, s2) \<Rightarrow> (Inl (Wrapped e ''Failed to delete resource''), releaseLock p s2)
           | (Inr v, s2) \<Rightarrow> (Inr (), releaseLock p s2)))"

definition delete :: "'g env \<Rightarrow> string \<Rightarrow> state \<Rightarrow> (err + unit) \<times> state" where
  "delete env url s =
     (let rq = \<lparr>m_url = UrlString url, m_contentType = None,
                m_createIfNotExists = False, m_searchIndex = None\<rparr>;
          s1 = emit (EvMapUrlToFile rq) s
      in case mapUrlToFile env rq of
           Inl e \<Rightarrow> (Inl (HTTPError 404 ''Can't find ''), s1)
         | Inr (p, ct) \<Rightarrow>
             (case stat env p s1 of
                (Inl e, s2) \<Rightarrow> (Inl (HTTPError 404 ''Can't find ''), s2)
              | (Inr st, s2) \<Rightarrow>
                  if isDirectory st then deleteContainer env p s2
                  else deleteResource env p s2))"

subsection \<open>getAvailablePath\<close>

text \<open>\<open>uuid.v1()\<close>: the environment's next identifier.\<close>

definition fresh_uuid :: "'g env \<Rightarrow> state \<Rightarrow> string \<times> state" where
  "fresh_uuid env s = (uuid_v1 env (uuids s), (emit EvUuid s)\<lparr>uuids := Suc (uuids s)\<rparr>)"

text \<open>The candidate of a retry:
  \<open>URI.joinPaths(containerURI, `${uuid.v1().split('-')[0]}-${path}`).toString()\<close>.\<close>

definition retry_path :: "'g env \<Rightarrow> string \<Rightarrow> string \<Rightarrow> string \<Rightarrow> string" where
  "retry_path env containerURI pth u =
     joinPaths env containerURI (hd (split_on CHR ''-'' u) @ ''-'' @ pth)"

text \<open>
  \<open>ensureNotExists\<close> recurses for as long as the probe succeeds; nothing bounds the
  recursion, so the model is a partial function and \<open>None\<close> stands for a promise that
  never settles.
\<close>

partial_function (option) ensureNotExists ::
  "'g env \<Rightarrow> string \<Rightarrow> string \<Rightarrow> string \<Rightarrow> string \<Rightarrow> state \<Rightarrow> (string \<times> state) option"
where
  "ensureNotExists env host containerURI pth newPath s =
     (if isl (fst (exists env host newPath True s))
      then Some (newPath, snd (exists env host newPath True s))
      else ensureNotExists env host containerURI pth
             (retry_path env containerURI pth
                (fst (fresh_uuid env (snd (exists env host newPath True s)))))
             (snd (fresh_uuid env (snd (exists env host newPath True s)))))"

declare ensureNotExists.simps [code]

definition getAvailablePath ::
  "'g env \<Rightarrow> string \<Rightarrow> string \<Rightarrow> string option \<Rightarrow> string option \<Rightarrow> state
     \<Rightarrow> (string \<times> state) option"
where
  "getAvailablePath env host containerURI slug extension s =
     (case (case slug of None \<Rightarrow> fresh_uuid env s | Some sl \<Rightarrow> (sl, s)) of
        (sl, s1) \<Rightarrow>
          ensureNotExists env host containerURI (sl @ js_string extension)
            (joinPaths env containerURI (sl @ js_string extension)) s1)"

subsection \<open>post\<close>

record post_options =
  opt_container :: bool
  opt_slug :: "string option"
  opt_extension :: "string option"

text \<open>\<open>slug.match(/\/|\||:/)\<close>.\<close>

definition forbidden_in_slug :: "string \<Rightarrow> bool" where
  "forbidden_in_slug sl = list_ex (\<lambda>c. c = CHR ''/'' \<or> c = CHR ''|'' \<or> c = CHR '':'') sl"

text \<open>Lines 139 to 145: a slug that is supplied is decoded and checked.\<close>

definition prepare_slug :: "'g env \<Rightarrow> string option \<Rightarrow> err + string option" where
  "prepare_slug env slug =
     (if truthy slug
      then (case decodeURIComponent env (js_string slug) of
              Inl e \<Rightarrow> Inl (Thrown e)
            | Inr d \<Rightarrow>
                if forbidden_in_slug d
                then Inl (HTTPError 400 ''The name of new file POSTed may not contain : | or /'')
                else Inr (Some d))
      else Inr slug)"

text \<open>The value \<open>post\<close> returns for an allocated path: for a container the separator is
  added when the path is not empty and does not end with it.\<close>

definition returned_path :: "bool \<Rightarrow> string \<Rightarrow> string" where
  "returned_path container originalPath =
     (if container \<and> originalPath \<noteq> [] \<and> \<not> endsWith originalPath ''/''
      then originalPath @ ''/'' else originalPath)"

definition post ::
  "'g env \<Rightarrow> string \<Rightarrow> string \<Rightarrow> string \<Rightarrow> post_options \<Rightarrow> state
     \<Rightarrow> ((err + string) \<times> state) option"
where
  "post env host containerPath stream opts s =
     (case prepare_slug env (opt_slug opts) of
        Inl e \<Rightarrow> Some (Inl e, s)
      | Inr slug \<Rightarrow>
          (case getAvailablePath env host containerPath slug
                  (if opt_container opts then Some [] else opt_extension opts) s of
             None \<Rightarrow> None
           | Some (originalPath, s1) \<Rightarrow>
               (let resourcePath =
                      (if opt_container opts then path_join env originalPath (suffixMeta env)
                       else originalPath);
                    s2 = emit (EvMapFileToUrl (rootPath env @ resourcePath) host) s1
                in case mapFileToUrl env (rootPath env @ resourcePath) host of
                     Inl e \<Rightarrow> Some (Inl (Thrown e), s2)
                   | Inr (putUrl, contentType) \<Rightarrow>
                       (case put env (UrlString putUrl) stream (Some contentType) s2 of
                          (Inl e, s3) \<Rightarrow> Some (Inl e, s3)
                        | (Inr u, s3) \<Rightarrow>
                            Some (Inr (returned_path (opt_container opts) originalPath), s3)))))"

subsection \<open>Observations\<close>

text \<open>The collaborator calls an operation made: the events it added to the trace.\<close>

definition events_of :: "state \<Rightarrow> state \<Rightarrow> event list" where
  "events_of s s' = drop (length (trace s)) (trace s')"

subsection \<open>A concrete environment\<close>

text \<open>
  Stubs of the collaborators, as a test would give them, to run the operations on
  concrete inputs: the mapper prefixes the root path, the decoder handles
  percent-escapes of ASCII, and the graph is the list of its lines.
\<close>

definition hex_val :: "char \<Rightarrow> nat option" where
  "hex_val c =
     (let n = (of_char c :: nat)
      in if 48 \<le> n \<and> n \<le> 57 then Some (n - 48)
         else if 65 \<le> n \<and> n \<le> 70 then Some (n - 55)
         else if 97 \<le> n \<and> n \<le> 102 then Some (n - 87)
         else None)"

definition URIError :: raw_error where
  "URIError = RawError ''URIError'' None ''URI malformed''"

fun percent_decode :: "string \<Rightarrow> raw_error + string" where
  "percent_decode [] = Inr []"
| "percent_decode (c # cs) =
     (if c = CHR ''%''
      then (case cs of
              a # b # r \<Rightarrow>
                (case (hex_val a, hex_val b) of
                   (Some x, Some y) \<Rightarrow>
                     (case percent_decode r of
                        Inl e \<Rightarrow> Inl e
                      | Inr d \<Rightarrow> Inr (char_of (16 * x + y) # d))
                 | _ \<Rightarrow> Inl URIError)
            | _ \<Rightarrow> Inl URIError)
      else (case percent_decode cs of Inl e \<Rightarrow> Inl e | Inr d \<Rightarrow> Inr (c # d)))"

definition stub_join :: "string \<Rightarrow> string \<Rightarrow> string" where
  "stub_join a b = (if endsWith a ''/'' then a @ b else a @ ''/'' @ b)"

definition stub_dirname :: "string \<Rightarrow> string" where
  "stub_dirname p = rev (tl (dropWhile (\<lambda>c. c \<noteq> CHR ''/'') (rev p)))"

definition stub_map :: "map_request \<Rightarrow> raw_error + (path \<times> string)" where
  "stub_map rq =
     (case m_url rq of
        UrlString u \<Rightarrow> Inr (''/data'' @ u, ''text/turtle'')
      | UrlObject r \<Rightarrow> Inr (''/data'' @ req_path r, ''text/turtle''))"

definition stub_env :: "string list env" where
  "stub_env =
     \<lparr>suffixAcl = ''.acl'', suffixMeta = ''.meta'',
      serverUri = ''https://localhost:8443'', rootPath = ''/data'',
      mapUrlToFile = stub_map,
      mapFileToUrl = (\<lambda>p h. Inr (drop 5 p, ''text/turtle'')),
      overQuota = (\<lambda>r u. Inr False),
      decodeURIComponent = percent_decode,
      uuid_v1 = (\<lambda>n. ''6c84fb9'' @ show_nat n @ ''-12c4-11e1-840d-7b25c5ee775a''),
      joinPaths = stub_join,
      path_join = stub_join,
      dirname = stub_dirname,
      fault = (\<lambda>ev. None),
      write_cutoff = (\<lambda>p. None),
      rdf_parse = (\<lambda>d u. Inr [d]),
      addContainerStats = (\<lambda>u c g. Inr g),
      addFile = (\<lambda>g u f c n. Inr (g @ [f])),
      serialize = (\<lambda>g u. Inr (concat g))\<rparr>"

definition disk0 :: filesystem where
  "disk0 =
     [(''/'', Directory), (''/data'', Directory), (''/data/c'', Directory),
      (''/data/c/foo.ttl'', File ''0123456789''), (''/data/e'', Directory),
      (''/data/e/.meta'', File ''m''), (''/data/e/.acl'', File ''a'')]"

definition state0 :: state where
  "state0 = \<lparr>files = disk0, locks = {}, trace = [], uuids = 0\<rparr>"

section \<open>Properties\<close>

subsection \<open>What each step leaves alone\<close>

lemma emit_simps:
  "files (emit e s) = files s" "locks (emit e s) = locks s"
  "trace (emit e s) = trace s @ [e]" "uuids (emit e s) = uuids s"
  by (simp_all add: emit_def)

lemma events_of_append: "trace s' = trace s @ evs \<Longrightarrow> events_of s s' = evs"
  by (simp add: events_of_def)

lemma releaseLock_simps:
  "files (releaseLock p s) = files s" "locks (releaseLock p s) = locks s - {p}"
  "uuids (releaseLock p s) = uuids s" "trace (releaseLock p s) = trace s @ [EvRelease p]"
  by (simp_all add: releaseLock_def emit_simps)

lemma lock_frame:
  assumes "lock env p rp s = (r, s')"
  shows "files s' = files s"
    and "uuids s' = uuids s"
    and "trace s' = trace s @ [EvLock p]"
    and "isl r \<Longrightarrow> locks s' = locks s"
    and "\<not> isl r \<Longrightarrow> locks s' = insert p (locks s) \<and> p \<notin> locks s"
  using assms
  by (auto simp: lock_def Let_def emit_simps split: option.splits if_splits)

lemma pipe_frame:
  assumes "pipe_to_file env data p s = (r, s')"
  shows "locks s' = locks s" and "trace s' = trace s @ [EvCreateWriteStream p]"
    and "uuids s' = uuids s"
  using assms
  by (auto simp: pipe_to_file_def Let_def emit_simps split: option.splits if_splits)

lemma mkdirp_frame:
  assumes "fs_mkdirp env d s = (r, s')"
  shows "locks s' = locks s" and "trace s' = trace s @ [EvMkdirp d]"
    and "isl r \<Longrightarrow> files s' = files s"
  using assms
  by (auto simp: fs_mkdirp_def Let_def emit_simps split: option.splits if_splits)

lemma put_write_locks:
  assumes "put_write env p data s = (r, s')"
  shows "locks s' = locks s"
proof -
  obtain lr s1 where l: "lock env p False s = (lr, s1)" by force
  show ?thesis
  proof (cases lr)
    case (Inl e)
    with l assms lock_frame(4)[OF l] show ?thesis
      by (simp add: put_write_def)
  next
    case (Inr u)
    with lock_frame(5)[OF l] have h: "locks s1 = insert p (locks s)" "p \<notin> locks s"
      by simp_all
    obtain wr s2 where w: "pipe_to_file env data p s1 = (wr, s2)" by force
    with h pipe_frame(1)[OF w] have "locks (releaseLock p s2) = locks s"
      by (simp add: releaseLock_simps)
    with assms l Inr w show ?thesis
      by (auto simp: put_write_def split: sum.splits)
  qed
qed

lemma put_write_trace:
  assumes "put_write env p data s = (r, s')"
  shows "\<exists>evs. trace s' = trace s @ evs
           \<and> set evs \<subseteq> {EvLock p, EvCreateWriteStream p, EvRelease p}"
proof -
  obtain lr s1 where l: "lock env p False s = (lr, s1)" by force
  obtain wr s2 where w: "pipe_to_file env data p s1 = (wr, s2)" by force
  from assms l w lock_frame(3)[OF l] pipe_frame(2)[OF w] show ?thesis
    by (auto simp: put_write_def releaseLock_simps split: sum.splits)
qed

lemma put_prepare_locks:
  assumes "put_prepare env url ct s = (r, s')"
  shows "locks s' = locks s"
  using assms
  by (auto simp: put_prepare_def Let_def emit_simps
      split: option.splits if_splits sum.splits bool.splits prod.splits
      dest: mkdirp_frame(1))

lemma put_locks:
  assumes "put env url stream ct s = (r, s')"
  shows "locks s' = locks s"
  using assms
  by (auto simp: put_def split: prod.splits sum.splits
      dest: put_prepare_locks put_write_locks)


subsection \<open>put on a container\<close>

text \<open>
  Claim C8. A \<open>put\<close> whose target identifier ends with the separator \<open>/\<close> fails with
  Conflict (409), and the state it returns is the state it was given: the trace is
  unchanged, so neither the quota oracle, the lock manager nor the filesystem was called,
  and nothing was created.
\<close>

theorem put_on_container_conflict:
  assumes "url_of url = Some u" and "endsWith u ''/''"
  shows "put env url stream contentType s =
           (Inl (HTTPError 409 ''PUT not supported on containers, use POST instead''), s)"
  using assms by (simp add: put_def put_prepare_def)

text \<open>Witness for C8: a string target and a request object whose \<open>url\<close> ends with the
  separator.\<close>

theorem put_on_container_conflict_witness:
  "put stub_env (UrlString ''/c/'') ''body'' (Some ''text/turtle'') state0 =
     (Inl (HTTPError 409 ''PUT not supported on containers, use POST instead''), state0)
   \<and> put stub_env
        (UrlObject \<lparr>req_url = Some ''/c/d/'', req_hostname = ''h'', req_path = ''/c/d/'',
                    req_includeBody = False, req_range = None\<rparr>)
        ''body'' None state0 =
     (Inl (HTTPError 409 ''PUT not supported on containers, use POST instead''), state0)"
proof -
  have a: "url_of (UrlString ''/c/'') = Some ''/c/''" by (simp add: url_of_def)
  have b: "endsWith ''/c/'' ''/''" by (simp add: endsWith_def)
  have c: "url_of (UrlObject \<lparr>req_url = Some ''/c/d/'', req_hostname = ''h'',
             req_path = ''/c/d/'', req_includeBody = False, req_range = None\<rparr>) = Some ''/c/d/''"
    by (simp add: url_of_def truthy_def)
  have d: "endsWith ''/c/d/'' ''/''" by (simp add: endsWith_def)
  from put_on_container_conflict[OF a b, of stub_env "''body''" "Some ''text/turtle''" state0]
    put_on_container_conflict[OF c d, of stub_env "''body''" None state0]
  show ?thesis by simp
qed


subsection \<open>The quota gate of put\<close>

lemma put_quota_cases:
  assumes "put env url stream ct s = (r, s')"
  shows "s' = s
       \<or> (overQuota env (rootPath env) (serverUri env) \<noteq> Inr False
           \<and> s' = emit (EvOverQuota (overQuota env (rootPath env) (serverUri env))) s
           \<and> r = Inl (case overQuota env (rootPath env) (serverUri env) of
                        Inl e \<Rightarrow> HTTPError 500 ''Error finding user quota''
                      | Inr b \<Rightarrow> HTTPError 413 ''User has exceeded their storage quota''))
       \<or> (\<exists>evs. trace s' = trace s @ EvOverQuota (Inr False) # evs
              \<and> (\<forall>a. EvOverQuota a \<notin> set evs))"
proof -
  obtain pr s0 where p: "put_prepare env url ct s = (pr, s0)" by force
  show ?thesis
  proof (cases pr)
    case (Inl e)
    with p assms have "s' = s0" "r = Inl e" by (simp_all add: put_def)
    with p Inl show ?thesis
      by (auto simp: put_prepare_def Let_def emit_simps
          split: option.splits if_splits sum.splits bool.splits prod.splits
          dest: mkdirp_frame(2))
  next
    case (Inr pth)
    with p assms have w: "put_write env pth stream s0 = (r, s')" by (simp add: put_def)
    from put_write_trace[OF w] obtain evs where
      e: "trace s' = trace s0 @ evs" "set evs \<subseteq> {EvLock pth, EvCreateWriteStream pth, EvRelease pth}"
      by blast
    from p Inr obtain rq d where
      "trace s0 = trace s @ [EvOverQuota (Inr False), EvMapUrlToFile rq, EvMkdirp d]"
      by (auto simp: put_prepare_def Let_def emit_simps
          split: option.splits if_splits sum.splits bool.splits prod.splits
          dest: mkdirp_frame(2))
    with e have "trace s' = trace s @ EvOverQuota (Inr False) # (EvMapUrlToFile rq # EvMkdirp d # evs)"
      "\<forall>a. EvOverQuota a \<notin> set (EvMapUrlToFile rq # EvMkdirp d # evs)"
      by auto
    then show ?thesis by blast
  qed
qed

text \<open>What a run that recorded an answer of the oracle other than \<open>false\<close> did.\<close>

lemma put_quota_reported:
  assumes "put env url stream contentType s = (r, s')"
  shows "(EvOverQuota (Inr True) \<in> set (events_of s s') \<longrightarrow>
            r = Inl (HTTPError 413 ''User has exceeded their storage quota'')
            \<and> files s' = files s \<and> locks s' = locks s
            \<and> events_of s s' = [EvOverQuota (Inr True)])
       \<and> (\<forall>e. EvOverQuota (Inl e) \<in> set (events_of s s') \<longrightarrow>
            r = Inl (HTTPError 500 ''Error finding user quota'')
            \<and> files s' = files s \<and> locks s' = locks s
            \<and> events_of s s' = [EvOverQuota (Inl e)])"
proof -
  from put_quota_cases[OF assms] consider
    (unchanged) "s' = s"
    | (gate) "overQuota env (rootPath env) (serverUri env) \<noteq> Inr False"
        "s' = emit (EvOverQuota (overQuota env (rootPath env) (serverUri env))) s"
        "r = Inl (case overQuota env (rootPath env) (serverUri env) of
                        Inl e \<Rightarrow> HTTPError 500 ''Error finding user quota''
                      | Inr b \<Rightarrow> HTTPError 413 ''User has exceeded their storage quota'')"
    | (passed) evs where "trace s' = trace s @ EvOverQuota (Inr False) # evs"
        "\<forall>a. EvOverQuota a \<notin> set evs"
    by blast
  then show ?thesis
  proof cases
    case unchanged
    then show ?thesis by (simp add: events_of_def)
  next
    case gate
    then show ?thesis
      by (cases "overQuota env (rootPath env) (serverUri env)")
        (auto simp: events_of_def emit_simps)
  next
    case passed
    from events_of_append[OF passed(1)] passed(2) show ?thesis by auto
  qed
qed

text \<open>
  Claim C4. For every \<open>put\<close>: when the quota oracle answers over-quota, no file or
  directory is created or modified, the set of held locks is as before and no
  collaborator other than the oracle is called, so no lock is requested; and when the
  put passes the two guards that stand before the gate (the target does not end with
  the separator, a content type is given), it fails with PayloadTooLarge (413), the
  query of the oracle being its only collaborator call. When the quota check itself
  fails, the same holds with ServerError (500).
\<close>

theorem put_quota_gate:
  "(overQuota env (rootPath env) (serverUri env) = Inr True \<longrightarrow>
       files (snd (put env url stream contentType s)) = files s
     \<and> locks (snd (put env url stream contentType s)) = locks s
     \<and> set (events_of s (snd (put env url stream contentType s))) \<subseteq> {EvOverQuota (Inr True)}
     \<and> (\<forall>u. url_of url = Some u \<and> \<not> endsWith u ''/'' \<and> truthy contentType \<longrightarrow>
           put env url stream contentType s =
             (Inl (HTTPError 413 ''User has exceeded their storage quota''),
              emit (EvOverQuota (Inr True)) s)
           \<and> events_of s (snd (put env url stream contentType s)) = [EvOverQuota (Inr True)]))
   \<and> (\<forall>e. overQuota env (rootPath env) (serverUri env) = Inl e \<longrightarrow>
       files (snd (put env url stream contentType s)) = files s
     \<and> locks (snd (put env url stream contentType s)) = locks s
     \<and> set (events_of s (snd (put env url stream contentType s))) \<subseteq> {EvOverQuota (Inl e)}
     \<and> (\<forall>u. url_of url = Some u \<and> \<not> endsWith u ''/'' \<and> truthy contentType \<longrightarrow>
           put env url stream contentType s =
             (Inl (HTTPError 500 ''Error finding user quota''),
              emit (EvOverQuota (Inl e)) s)
           \<and> events_of s (snd (put env url stream contentType s)) = [EvOverQuota (Inl e)]))"
  by (auto simp: put_def put_prepare_def Let_def emit_simps events_of_def split: option.splits)

text \<open>Witness for C4: an oracle that answers \<open>true\<close>, and one that fails.\<close>

theorem put_quota_gate_witness:
  "overQuota (stub_env\<lparr>overQuota := \<lambda>r u. Inr True\<rparr>) (rootPath (stub_env\<lparr>overQuota := \<lambda>r u. Inr True\<rparr>))
       (serverUri (stub_env\<lparr>overQuota := \<lambda>r u. Inr True\<rparr>)) = Inr True
   \<and> put (stub_env\<lparr>overQuota := \<lambda>r u. Inr True\<rparr>)
       (UrlString ''/c/a.ttl'') ''body'' (Some ''text/turtle'') state0
      = (Inl (HTTPError 413 ''User has exceeded their storage quota''),
         emit (EvOverQuota (Inr True)) state0)
   \<and> files (snd (put (stub_env\<lparr>overQuota := \<lambda>r u. Inr True\<rparr>)
       (UrlString ''/c/a.ttl'') ''body'' (Some ''text/turtle'') state0)) = files state0
   \<and> locks (snd (put (stub_env\<lparr>overQuota := \<lambda>r u. Inr True\<rparr>)
       (UrlString ''/c/a.ttl'') ''body'' (Some ''text/turtle'') state0)) = locks state0
   \<and> put (stub_env\<lparr>overQuota := \<lambda>r u. Inl EIO\<rparr>)
       (UrlString ''/c/a.ttl'') ''body'' (Some ''text/turtle'') state0
      = (Inl (HTTPError 500 ''Error finding user quota''),
         emit (EvOverQuota (Inl EIO)) state0)
   \<and> files (snd (put (stub_env\<lparr>overQuota := \<lambda>r u. Inl EIO\<rparr>)
       (UrlString ''/c/a.ttl'') ''body'' (Some ''text/turtle'') state0)) = files state0"
proof -
  let ?over = "stub_env\<lparr>overQuota := \<lambda>r u. Inr True\<rparr>"
  let ?bad = "stub_env\<lparr>overQuota := \<lambda>r u. Inl EIO\<rparr>"
  have o: "overQuota ?over (rootPath ?over) (serverUri ?over) = Inr True" by simp
  have b: "overQuota ?bad (rootPath ?bad) (serverUri ?bad) = Inl EIO" by simp
  have g: "url_of (UrlString ''/c/a.ttl'') = Some ''/c/a.ttl''
           \<and> \<not> endsWith ''/c/a.ttl'' ''/'' \<and> truthy (Some ''text/turtle'')"
    by (simp add: url_of_def endsWith_def truthy_def)
  note t1 = put_quota_gate[of ?over "UrlString ''/c/a.ttl''" "''body''" "Some ''text/turtle''" state0,
      THEN conjunct1, rule_format, OF o]
  note t2 = put_quota_gate[of ?bad "UrlString ''/c/a.ttl''" "''body''" "Some ''text/turtle''" state0,
      THEN conjunct2, rule_format, OF b]
  from t1 have a1: "files (snd (put ?over (UrlString ''/c/a.ttl'') ''body'' (Some ''text/turtle'') state0))
        = files state0"
    and a2: "locks (snd (put ?over (UrlString ''/c/a.ttl'') ''body'' (Some ''text/turtle'') state0))
        = locks state0"
    by blast+
  from t1 g have a3: "put ?over (UrlString ''/c/a.ttl'') ''body'' (Some ''text/turtle'') state0
      = (Inl (HTTPError 413 ''User has exceeded their storage quota''),
         emit (EvOverQuota (Inr True)) state0)"
    by blast
  from t2 have b1: "files (snd (put ?bad (UrlString ''/c/a.ttl'') ''body'' (Some ''text/turtle'') state0))
        = files state0"
    by blast
  from t2 g have b3: "put ?bad (UrlString ''/c/a.ttl'') ''body'' (Some ''text/turtle'') state0
      = (Inl (HTTPError 500 ''Error finding user quota''),
         emit (EvOverQuota (Inl EIO)) state0)"
    by blast
  from o a3 a1 a2 b3 b1 show ?thesis by (intro conjI)
qed


subsection \<open>A put whose write fails\<close>

lemma map_of_fs_store: "map_of (fs_store p n fs) k = (if k = fs_key p then Some n else map_of fs k)"
  by (induction fs) (auto simp: fs_store_def)

lemma node_at_fs_store_self:
  "\<not> endsWith p ''/'' \<Longrightarrow> node_at (fs_store p (File c) fs) p = Some (File c)"
  by (simp add: node_at_def map_of_fs_store)

lemma put_write_outcomes:
  assumes "put_write env p data s = (Inl e, s')"
  shows "(\<exists>re. e = Thrown re \<and> lock env p False s = (Inl re, s') \<and> files s' = files s)
       \<or> (e = HTTPError 500 ''Error writing data''
          \<and> (\<exists>u s1. lock env p False s = (Inr u, s1))
          \<and> (files s' = files s
             \<or> (\<exists>n. write_cutoff env p = Some n
                    \<and> files s' = fs_store p (File (take n data)) (files s)
                    \<and> node_at (files s') p = Some (File (take n data)))))"
proof -
  obtain lr s1 where l: "lock env p False s = (lr, s1)" by force
  show ?thesis
  proof (cases lr)
    case (Inl e1)
    with l assms lock_frame(1)[OF l] show ?thesis
      by (simp add: put_write_def)
  next
    case (Inr u)
    obtain wr s2 where w: "pipe_to_file env data p s1 = (wr, s2)" by force
    with assms l Inr obtain e2 where wr: "wr = Inl e2" and s': "s' = releaseLock p s2"
      and e: "e = HTTPError 500 ''Error writing data''"
      by (auto simp: put_write_def split: sum.splits)
    from w wr have "files s2 = files s1
        \<or> (\<not> endsWith p ''/'' \<and> (\<exists>n. write_cutoff env p = Some n
              \<and> files s2 = fs_store p (File (take n data)) (files s1)))"
      by (auto simp: pipe_to_file_def Let_def emit_simps split: option.splits if_splits)
    with s' e l Inr lock_frame(1)[OF l] show ?thesis
      by (auto simp: releaseLock_simps node_at_fs_store_self)
  qed
qed

lemma map_of_mkdirp_chain:
  "map_of (foldl (\<lambda>fs q. fs_store q Directory fs) fs qs) k =
     (if k \<in> fs_key ` set qs then Some Directory else map_of fs k)"
  by (induction qs arbitrary: fs) (auto simp: map_of_fs_store)

lemma mkdirp_keeps_files:
  assumes "fs_mkdirp env d s = (Inr u, s')"
      and "map_of (files s) k = Some (File c)"
  shows "map_of (files s') k = Some (File c)"
proof -
  from assms(1) have
    ok: "\<not> list_ex (\<lambda>q. map_of (files s) (fs_key q) \<notin> {None, Some Directory}) (dir_chain d)"
    and f: "files s' = foldl (\<lambda>fs q. fs_store q Directory fs) (files s) (dir_chain d)"
    by (auto simp: fs_mkdirp_def Let_def emit_simps split: option.splits if_splits)
  from ok assms(2) have "k \<notin> fs_key ` set (dir_chain d)"
    by (auto simp: list_ex_iff)
  with f assms(2) show ?thesis by (simp add: map_of_mkdirp_chain)
qed

lemma node_at_File:
  "node_at fs p = Some (File c) \<longleftrightarrow> map_of fs (fs_key p) = Some (File c) \<and> \<not> endsWith p ''/''"
  by (auto simp: node_at_def split: option.splits node.splits)

lemma put_prepare_keeps_files:
  assumes "put_prepare env url ct s = (Inr p, s0)"
      and "node_at (files s) q = Some (File c)"
  shows "node_at (files s0) q = Some (File c)"
proof -
  from assms(1) obtain s2 u where
    "fs_mkdirp env (dirname env p) s2 = (Inr u, s0)" "files s2 = files s"
    by (auto simp: put_prepare_def Let_def emit_simps
        split: option.splits if_splits sum.splits bool.splits prod.splits)
  with mkdirp_keeps_files[of env "dirname env p" s2 u s0 "fs_key q" c] assms(2)
  show ?thesis by (simp add: node_at_File)
qed

text \<open>
  Claim C1, as stated, fails. The write stream stores the bytes in the target file
  itself: when it emits \<open>error\<close> after two of the three bytes of the new content, the
  call fails with 500 and the file holds those two bytes, which is neither the old
  content nor the new one.
\<close>

theorem put_partial_write_counterexample:
  "fst (put (stub_env\<lparr>write_cutoff := \<lambda>p. Some 2\<rparr>) (UrlString ''/c/foo.ttl'') ''NEW''
          (Some ''text/turtle'') state0) = Inl (HTTPError 500 ''Error writing data'')
   \<and> node_at (files state0) ''/data/c/foo.ttl'' = Some (File ''0123456789'')
   \<and> node_at (files (snd (put (stub_env\<lparr>write_cutoff := \<lambda>p. Some 2\<rparr>) (UrlString ''/c/foo.ttl'')
          ''NEW'' (Some ''text/turtle'') state0))) ''/data/c/foo.ttl'' = Some (File ''NE'')"
  by code_simp

text \<open>
  Claim C1, amended. For every \<open>put\<close> that reaches its write stage (the preparation
  returned the path \<open>p\<close>) and then fails: the set of held locks is the one before the
  call, and a file that was at the target before the call is still there, with its
  content, when the write stage begins (the preparation creates directories only).
  The failure is one of two. Either the lock was refused: the error is the lock's own,
  and the disk is as it was when the write stage began. Or the lock was taken and the
  write stream emitted \<open>error\<close>: the call fails with 500, and the disk is as it was
  when the write stage began, or the target file holds the first \<open>n\<close> bytes of the new
  content, \<open>n\<close> being the number of bytes stored before the error, possibly a partial
  write.
\<close>

theorem put_failed_write:
  assumes "put_prepare env url contentType s = (Inr p, s0)"
      and "put env url data contentType s = (Inl e, s')"
  shows "locks s' = locks s
       \<and> (\<forall>c. node_at (files s) p = Some (File c) \<longrightarrow> node_at (files s0) p = Some (File c))
       \<and> ((\<exists>re. e = Thrown re \<and> lock env p False s0 = (Inl re, s') \<and> files s' = files s0)
          \<or> (e = HTTPError 500 ''Error writing data''
             \<and> (\<exists>u s1. lock env p False s0 = (Inr u, s1))
             \<and> (files s' = files s0
                \<or> (\<exists>n. write_cutoff env p = Some n
                       \<and> files s' = fs_store p (File (take n data)) (files s0)
                       \<and> node_at (files s') p = Some (File (take n data))))))"
proof -
  from assms have w: "put_write env p data s0 = (Inl e, s')"
    by (simp add: put_def)
  from put_locks[OF assms(2)] put_write_outcomes[OF w] put_prepare_keeps_files[OF assms(1)]
  show ?thesis by simp
qed

text \<open>Witness for C1: a write stream that fails after two bytes, and a lock held by
  someone else.\<close>

theorem put_failed_write_witness:
  "locks (snd (put (stub_env\<lparr>write_cutoff := \<lambda>p. Some 2\<rparr>) (UrlString ''/c/foo.ttl'') ''NEW''
          (Some ''text/turtle'') state0)) = locks state0
   \<and> node_at (files (snd (put (stub_env\<lparr>write_cutoff := \<lambda>p. Some 2\<rparr>) (UrlString ''/c/foo.ttl'')
          ''NEW'' (Some ''text/turtle'') state0))) ''/data/c/foo.ttl'' = Some (File (take 2 ''NEW''))
   \<and> locks (snd (put stub_env (UrlString ''/c/foo.ttl'') ''NEW'' (Some ''text/turtle'')
          (state0\<lparr>locks := {''/data/c/foo.ttl''}\<rparr>))) = {''/data/c/foo.ttl''}
   \<and> fst (put stub_env (UrlString ''/c/foo.ttl'') ''NEW'' (Some ''text/turtle'')
          (state0\<lparr>locks := {''/data/c/foo.ttl''}\<rparr>)) = Inl (Thrown ELOCKED)
   \<and> node_at (files (snd (put stub_env (UrlString ''/c/foo.ttl'') ''NEW'' (Some ''text/turtle'')
          (state0\<lparr>locks := {''/data/c/foo.ttl''}\<rparr>)))) ''/data/c/foo.ttl''
        = Some (File ''0123456789'')
   \<and> files (snd (put stub_env (UrlString ''/c/foo.ttl'') ''NEW'' (Some ''text/turtle'')
          (state0\<lparr>locks := {''/data/c/foo.ttl''}\<rparr>)))
        = files (snd (put_prepare stub_env (UrlString ''/c/foo.ttl'') (Some ''text/turtle'')
                   (state0\<lparr>locks := {''/data/c/foo.ttl''}\<rparr>)))"
proof -
  have p1: "put_prepare (stub_env\<lparr>write_cutoff := \<lambda>p. Some 2\<rparr>) (UrlString ''/c/foo.ttl'')
              (Some ''text/turtle'') state0
            = (Inr ''/data/c/foo.ttl'', snd (put_prepare (stub_env\<lparr>write_cutoff := \<lambda>p. Some 2\<rparr>)
                (UrlString ''/c/foo.ttl'') (Some ''text/turtle'') state0))"
    by code_simp
  have r1: "put (stub_env\<lparr>write_cutoff := \<lambda>p. Some 2\<rparr>) (UrlString ''/c/foo.ttl'') ''NEW''
              (Some ''text/turtle'') state0
            = (Inl (HTTPError 500 ''Error writing data''),
               snd (put (stub_env\<lparr>write_cutoff := \<lambda>p. Some 2\<rparr>) (UrlString ''/c/foo.ttl'') ''NEW''
              (Some ''text/turtle'') state0))"
    by code_simp
  have p2: "put_prepare stub_env (UrlString ''/c/foo.ttl'') (Some ''text/turtle'')
              (state0\<lparr>locks := {''/data/c/foo.ttl''}\<rparr>)
            = (Inr ''/data/c/foo.ttl'', snd (put_prepare stub_env (UrlString ''/c/foo.ttl'')
                 (Some ''text/turtle'') (state0\<lparr>locks := {''/data/c/foo.ttl''}\<rparr>)))"
    by code_simp
  have r2: "put stub_env (UrlString ''/c/foo.ttl'') ''NEW'' (Some ''text/turtle'')
              (state0\<lparr>locks := {''/data/c/foo.ttl''}\<rparr>)
            = (Inl (Thrown ELOCKED),
               snd (put stub_env (UrlString ''/c/foo.ttl'') ''NEW'' (Some ''text/turtle'')
              (state0\<lparr>locks := {''/data/c/foo.ttl''}\<rparr>)))"
    by code_simp
  have n1: "node_at (files (snd (put (stub_env\<lparr>write_cutoff := \<lambda>p. Some 2\<rparr>) (UrlString ''/c/foo.ttl'')
          ''NEW'' (Some ''text/turtle'') state0))) ''/data/c/foo.ttl'' = Some (File (take 2 ''NEW''))"
    by code_simp
  have n2: "node_at (files (snd (put stub_env (UrlString ''/c/foo.ttl'') ''NEW'' (Some ''text/turtle'')
          (state0\<lparr>locks := {''/data/c/foo.ttl''}\<rparr>)))) ''/data/c/foo.ttl''
        = Some (File ''0123456789'')"
    by code_simp
  have f2: "fst (put stub_env (UrlString ''/c/foo.ttl'') ''NEW'' (Some ''text/turtle'')
          (state0\<lparr>locks := {''/data/c/foo.ttl''}\<rparr>)) = Inl (Thrown ELOCKED)"
    by code_simp
  from put_failed_write[OF p1 r1, THEN conjunct1]
  have c1: "locks (snd (put (stub_env\<lparr>write_cutoff := \<lambda>p. Some 2\<rparr>) (UrlString ''/c/foo.ttl'')
          ''NEW'' (Some ''text/turtle'') state0)) = locks state0" .
  from put_failed_write[OF p2 r2, THEN conjunct1]
  have c2: "locks (snd (put stub_env (UrlString ''/c/foo.ttl'') ''NEW'' (Some ''text/turtle'')
          (state0\<lparr>locks := {''/data/c/foo.ttl''}\<rparr>))) = {''/data/c/foo.ttl''}"
    by simp
  from put_failed_write[OF p2 r2]
  have c3: "files (snd (put stub_env (UrlString ''/c/foo.ttl'') ''NEW'' (Some ''text/turtle'')
          (state0\<lparr>locks := {''/data/c/foo.ttl''}\<rparr>)))
        = files (snd (put_prepare stub_env (UrlString ''/c/foo.ttl'') (Some ''text/turtle'')
                   (state0\<lparr>locks := {''/data/c/foo.ttl''}\<rparr>)))"
    by simp
  from c1 n1 c2 f2 n2 c3 show ?thesis by (intro conjI)
qed

subsection \<open>Locks are released on every exit\<close>

lemma readFile_frame:
  assumes "fs_readFile env p s = (r, s')"
  shows "locks s' = locks s" and "files s' = files s"
  using assms
  by (auto simp: fs_readFile_def Let_def emit_simps split: option.splits node.splits)

lemma unlink_frame:
  assumes "fs_unlink env p s = (r, s')"
  shows "locks s' = locks s"
  using assms
  by (auto simp: fs_unlink_def Let_def emit_simps split: option.splits node.splits)

lemma readdir_frame:
  assumes "fs_readdir env p s = (r, s')"
  shows "locks s' = locks s" and "files s' = files s" and "trace s' = trace s @ [EvReaddir p]"
  using assms
  by (auto simp: fs_readdir_def Let_def emit_simps split: option.splits node.splits)

lemma stat_frame:
  assumes "stat env p s = (r, s')"
  shows "locks s' = locks s" and "files s' = files s" and "uuids s' = uuids s"
  using assms
  by (auto simp: stat_def fs_stat_def Let_def emit_simps split: option.splits node.splits)

lemma statSync_frame:
  assumes "fs_statSync env p s = (r, s')"
  shows "locks s' = locks s" and "files s' = files s"
  using assms
  by (auto simp: fs_statSync_def Let_def emit_simps split: option.splits node.splits)

lemma createReadStream_frame:
  assumes "createReadStream env p opts s = (r, s')"
  shows "locks s' = locks s" and "files s' = files s"
  using assms
  by (auto simp: createReadStream_def Let_def emit_simps split: option.splits node.splits if_splits)

text \<open>The scoped acquisition shared by the four operations: a lock taken on a path that
  an inner step leaves alone is gone once the release has run.\<close>

lemma scoped_lock:
  assumes l: "lock env p rp s = (Inr u, s1)"
      and inner: "locks s2 = locks s1"
  shows "locks (releaseLock p s2) = locks s"
  using lock_frame(5)[OF l] inner by (simp add: releaseLock_simps)

lemma readResource_locks:
  "locks (snd (readResource env url s)) = locks s"
proof -
  let ?rq = "\<lparr>m_url = UrlString url, m_contentType = None,
              m_createIfNotExists = False, m_searchIndex = None\<rparr>"
  show ?thesis
  proof (cases "mapUrlToFile env ?rq")
    case (Inl e)
    then show ?thesis by (simp add: readResource_def Let_def emit_simps)
  next
    case (Inr pc)
    obtain p ct where pc: "pc = (p, ct)" by force
    obtain lr s2 where l: "lock env p True (emit (EvMapUrlToFile ?rq) s) = (lr, s2)" by force
    show ?thesis
    proof (cases lr)
      case (Inl e)
      with Inr pc l lock_frame(4)[OF l] show ?thesis
        by (simp add: readResource_def Let_def emit_simps)
    next
      case u: (Inr u)
      obtain rr s3 where r: "fs_readFile env p s2 = (rr, s3)" by force
      from scoped_lock[OF l[unfolded u] readFile_frame(1)[OF r]]
      have "locks (releaseLock p s3) = locks s" by (simp add: emit_simps)
      with Inr pc l u r show ?thesis
        by (simp add: readResource_def Let_def emit_simps split: sum.splits)
    qed
  qed
qed

lemma deleteResource_locks:
  "locks (snd (deleteResource env p s)) = locks s"
proof -
  obtain lr s1 where l: "lock env p True s = (lr, s1)" by force
  show ?thesis
  proof (cases lr)
    case (Inl e)
    with l lock_frame(4)[OF l] show ?thesis by (simp add: deleteResource_def)
  next
    case u: (Inr u)
    obtain rr s2 where r: "fs_unlink env p s1 = (rr, s2)" by force
    from scoped_lock[OF l[unfolded u] unlink_frame[OF r]] l u r show ?thesis
      by (simp add: deleteResource_def split: sum.splits)
  qed
qed

lemma add_files_frame:
  "add_files env reqUri container hostname fs g s = (r, s') \<Longrightarrow>
     locks s' = locks s \<and> files s' = files s"
  by (induction fs arbitrary: g s)
    (auto simp: Let_def emit_simps split: sum.splits prod.splits)

lemma get_document_locks:
  "locks (snd (get_document env options p ct s)) = locks s"
proof -
  define pre where "pre = (if truthy (req_range options)
            then (case fs_statSync env p s of
                    (Inl e, s1) \<Rightarrow> (Inl e, s1)
                  | (Inr st, s1) \<Rightarrow>
                      (Inr (Some (parse_range (js_string (req_range options)) (st_size st))), s1))
            else (Inr None, s))"
  obtain pr s1 where pre: "pre = (pr, s1)" by force
  have s1: "locks s1 = locks s"
    using pre unfolding pre_def
    by (auto split: if_splits prod.splits sum.splits dest: statSync_frame(1))
  show ?thesis
  proof (cases pr)
    case (Inl e)
    with pre s1 show ?thesis
      unfolding get_document_def pre_def[symmetric] by simp
  next
    case rg: (Inr rg)
    obtain lr s2 where l: "lock env p True s1 = (lr, s2)" by force
    show ?thesis
    proof (cases lr)
      case (Inl e)
      with pre rg l lock_frame(4)[OF l] s1 show ?thesis
        unfolding get_document_def pre_def[symmetric] by simp
    next
      case u: (Inr u)
      obtain rr s3 where
        r: "createReadStream env p (read_options (map_option (\<lambda>(a, b, c, d). (a, b)) rg)) s2 = (rr, s3)"
        by force
      from scoped_lock[OF l[unfolded u] createReadStream_frame(1)[OF r]] s1
      have "locks (releaseLock p s3) = locks s" by simp
      with pre rg l u r show ?thesis
        unfolding get_document_def pre_def[symmetric]
        by (simp split: read_outcome.splits)
    qed
  qed
qed

lemma add_files_snd:
  "locks (snd (add_files env reqUri container hostname fs g s)) = locks s"
  "files (snd (add_files env reqUri container hostname fs g s)) = files s"
  using add_files_frame[OF prod.collapse[symmetric], of env reqUri container hostname fs g s]
  by simp_all

lemma readdir_snd:
  "locks (snd (fs_readdir env p s)) = locks s"
  "files (snd (fs_readdir env p s)) = files s"
  using readdir_frame[OF prod.collapse[symmetric], of env p s]
  by simp_all

lemma listContainer_snd:
  "locks (snd (listContainer env container reqUri containerData hostname s)) = locks s"
  "files (snd (listContainer env container reqUri containerData hostname s)) = files s"
  by (simp_all add: listContainer_def Let_def case_prod_unfold emit_simps
      add_files_snd readdir_snd split: sum.split)

lemma readContainerMeta_locks:
  "locks (snd (readContainerMeta env u s)) = locks s"
  by (simp add: readContainerMeta_def readResource_locks)

lemma get_container_locks:
  "locks (snd (get_container env options p s)) = locks s"
  by (simp add: get_container_def Let_def case_prod_unfold emit_simps
      listContainer_snd readContainerMeta_locks split: sum.split)

lemma stat_snd:
  "locks (snd (stat env p s)) = locks s" "files (snd (stat env p s)) = files s"
  using stat_frame[OF prod.collapse[symmetric], of env p s] by simp_all

lemma get_locks: "locks (snd (get env options searchIndex s)) = locks s"
  by (simp add: get_def Let_def case_prod_unfold emit_simps stat_snd
      get_document_locks get_container_locks split: sum.split)

text \<open>
  Claim C3. Each of the four operations that take a path lock (\<open>get\<close>, \<open>put\<close>,
  \<open>deleteResource\<close>, \<open>readResource\<close>) returns, on success and on every error, a state
  whose set of held locks is the one it started from: a lock the operation took is
  released, and a lock it could not take was never held by it.
\<close>

theorem lock_released_on_every_exit:
  "locks (snd (get env options searchIndex s)) = locks s
   \<and> locks (snd (put env url stream contentType s)) = locks s
   \<and> locks (snd (deleteResource env p s)) = locks s
   \<and> locks (snd (readResource env u s)) = locks s"
  using put_locks[OF prod.collapse[symmetric], of env url stream contentType s]
  by (simp add: get_locks deleteResource_locks readResource_locks)

text \<open>Witness for C3: a \<open>deleteResource\<close> that takes the lock, unlinks and releases,
  and a \<open>readResource\<close> whose read fails after the lock was taken.\<close>

theorem lock_released_on_every_exit_witness:
  "locks (snd (deleteResource stub_env ''/data/c/foo.ttl'' state0)) = locks state0
   \<and> trace (snd (deleteResource stub_env ''/data/c/foo.ttl'' state0))
       = [EvLock ''/data/c/foo.ttl'', EvUnlink ''/data/c/foo.ttl'', EvRelease ''/data/c/foo.ttl'']
   \<and> locks (snd (readResource (stub_env\<lparr>fault := \<lambda>ev. if ev = EvReadFile ''/data/e/.meta''
                                                     then Some EIO else None\<rparr>)
                ''/e/.meta'' state0)) = locks state0
   \<and> fst (readResource (stub_env\<lparr>fault := \<lambda>ev. if ev = EvReadFile ''/data/e/.meta''
                                                     then Some EIO else None\<rparr>)
                ''/e/.meta'' state0) = Inl (StatuslessError ''i/o error'')
   \<and> EvRelease ''/data/e/.meta''
       \<in> set (trace (snd (readResource (stub_env\<lparr>fault := \<lambda>ev. if ev = EvReadFile ''/data/e/.meta''
                                                     then Some EIO else None\<rparr>)
                ''/e/.meta'' state0)))"
proof -
  let ?env = "stub_env\<lparr>fault := \<lambda>ev. if ev = EvReadFile ''/data/e/.meta''
                                                     then Some EIO else None\<rparr>"
  have t: "trace (snd (deleteResource stub_env ''/data/c/foo.ttl'' state0))
       = [EvLock ''/data/c/foo.ttl'', EvUnlink ''/data/c/foo.ttl'', EvRelease ''/data/c/foo.ttl'']"
    by code_simp
  have r: "fst (readResource ?env ''/e/.meta'' state0)
             = Inl (StatuslessError ''i/o error'')"
    by code_simp
  have e: "EvRelease ''/data/e/.meta'' \<in> set (trace (snd (readResource ?env ''/e/.meta'' state0)))"
    by code_simp
  from lock_released_on_every_exit[of stub_env undefined undefined state0 undefined undefined
        undefined "''/data/c/foo.ttl''" "''/e/.meta''"]
  have a: "locks (snd (deleteResource stub_env ''/data/c/foo.ttl'' state0)) = locks state0"
    by simp
  from lock_released_on_every_exit[of ?env undefined undefined state0 undefined undefined
        undefined "''/data/c/foo.ttl''" "''/e/.meta''"]
  have b: "locks (snd (readResource ?env ''/e/.meta'' state0)) = locks state0"
    by simp
  from a t b r e show ?thesis by (intro conjI)
qed

subsection \<open>The path allocator\<close>

lemma exists_frame:
  "files (snd (exists env host p si s)) = files s"
  "locks (snd (exists env host p si s)) = locks s"
  by (simp_all add: exists_def get_def Let_def case_prod_unfold emit_simps stat_snd
      split: sum.split)

lemma fs_stat_fst:
  "files t = files s \<Longrightarrow> fst (fs_stat env p t) = fst (fs_stat env p s)"
  by (simp add: fs_stat_def Let_def emit_simps split: option.split)

lemma exists_fst_cong:
  "files t = files s \<Longrightarrow> fst (exists env host p si t) = fst (exists env host p si s)"
  by (simp add: exists_def get_def stat_def Let_def case_prod_unfold emit_simps
        fs_stat_fst[of "emit e t" "emit e s" for e]
      split: sum.split)

lemma fresh_uuid_frame:
  "files (snd (fresh_uuid env s)) = files s" "locks (snd (fresh_uuid env s)) = locks s"
  "fst (fresh_uuid env s) = uuid_v1 env (uuids s)"
  by (simp_all add: fresh_uuid_def emit_simps)

lemma ensureNotExists_result:
  assumes "ensureNotExists env host containerURI pth newPath s = Some ps"
  shows "files (snd ps) = files s
       \<and> isl (fst (exists env host (fst ps) True s))
       \<and> (fst ps = newPath \<or> (\<exists>k. fst ps = retry_path env containerURI pth (uuid_v1 env k)))"
  using assms
proof (induction env host containerURI pth newPath s ps
    rule: ensureNotExists.raw_induct[rotated 1, consumes 1])
  case (1 rec env host containerURI pth newPath s ps)
  show ?case
  proof (cases "isl (fst (exists env host newPath True s))")
    case True
    with 1(2) have "ps = (newPath, snd (exists env host newPath True s))" by simp
    with True show ?thesis by (simp add: exists_frame)
  next
    case False
    let ?s1 = "snd (fresh_uuid env (snd (exists env host newPath True s)))"
    let ?c = "retry_path env containerURI pth (fst (fresh_uuid env (snd (exists env host newPath True s))))"
    from False 1(2) have "rec env host containerURI pth ?c ?s1 = Some ps" by simp
    from 1(1)[OF this] have ih: "files (snd ps) = files ?s1"
      "isl (fst (exists env host (fst ps) True ?s1))"
      "fst ps = ?c \<or> (\<exists>k. fst ps = retry_path env containerURI pth (uuid_v1 env k))"
      by simp_all
    have f: "files ?s1 = files s" by (simp add: fresh_uuid_frame exists_frame)
    from ih(3) have "\<exists>k. fst ps = retry_path env containerURI pth (uuid_v1 env k)"
      by (auto simp: fresh_uuid_frame)
    with ih(1,2) f exists_fst_cong[OF f, of env host "fst ps" True] show ?thesis by simp
  qed
qed

text \<open>The allocator returns at the first candidate whose probe is rejected: at once
  when the first candidate is free, after one retry when only the first is taken.\<close>

lemma ensureNotExists_returns:
  assumes "isl (fst (exists env host newPath True s))"
  shows "ensureNotExists env host containerURI pth newPath s
           = Some (newPath, snd (exists env host newPath True s))"
  using assms by (subst ensureNotExists.simps) simp

lemma ensureNotExists_retries:
  assumes "\<not> isl (fst (exists env host newPath True s))"
  shows "ensureNotExists env host containerURI pth newPath s
           = ensureNotExists env host containerURI pth
               (retry_path env containerURI pth (uuid_v1 env (uuids s)))
               (snd (fresh_uuid env (snd (exists env host newPath True s))))"
proof -
  have "uuids (snd (exists env host newPath True s)) = uuids s"
    by (simp add: exists_def get_def Let_def case_prod_unfold emit_simps stat_def fs_stat_def
        split: sum.split option.split)
  with assms show ?thesis
    by (subst ensureNotExists.simps) (simp add: fresh_uuid_frame)
qed

text \<open>
  Claim C5. Whatever the store holds, an identifier that \<open>getAvailablePath\<close> returns is
  one whose existence probe was rejected with NotFound: the store is not changed by the
  allocation, so the probe of the returned identifier on the initial store is the probe
  the allocator made. Hence the result differs from every identifier whose probe
  succeeds, and in particular from the first candidate when that one exists; when the
  mapper resolves the returned identifier and \<open>stat\<close> is not faulty, nothing is on disk
  at the resolved path. With a
  slug \<open>sl\<close>, the result is the first candidate, the container joined with \<open>sl\<close> and
  the extension, or a retry candidate, where the start of a fresh uuid and a dash are
  put before \<open>sl\<close> and the extension.
\<close>

theorem getAvailablePath_not_existing:
  assumes "getAvailablePath env host containerURI slug extension s = Some (p, s')"
  shows "files s' = files s
       \<and> fst (exists env host p True s) = Inl (HTTPError 404 ''Can't find file requested: '')
       \<and> (\<forall>c. fst (exists env host c True s) \<noteq> Inl (HTTPError 404 ''Can't find file requested: '')
              \<longrightarrow> p \<noteq> c)
       \<and> (\<forall>sl. slug = Some sl \<longrightarrow>
             p = joinPaths env containerURI (sl @ js_string extension)
             \<or> (\<exists>k. p = joinPaths env containerURI
                        (hd (split_on CHR ''-'' (uuid_v1 env k)) @ ''-'' @ sl @ js_string extension)))
       \<and> (\<forall>f ct. mapUrlToFile env
                  \<lparr>m_url = UrlObject \<lparr>req_url = None, req_hostname = host, req_path = p,
                                        req_includeBody = False, req_range = None\<rparr>,
                   m_contentType = None, m_createIfNotExists = False,
                   m_searchIndex = Some True\<rparr> = Inr (f, ct)
                \<and> fault env (EvStat f) = None
              \<longrightarrow> node_at (files s) f = None)"
proof -
  obtain sl s1 where d: "(case slug of None \<Rightarrow> fresh_uuid env s | Some sl \<Rightarrow> (sl, s)) = (sl, s1)"
    by force
  then have f1: "files s1 = files s" and sl: "\<And>x. slug = Some x \<Longrightarrow> sl = x"
    by (auto simp: fresh_uuid_def emit_simps split: option.splits)
  from assms d have
    "ensureNotExists env host containerURI (sl @ js_string extension)
       (joinPaths env containerURI (sl @ js_string extension)) s1 = Some (p, s')"
    by (simp add: getAvailablePath_def)
  from ensureNotExists_result[OF this] have r: "files s' = files s1"
    "isl (fst (exists env host p True s1))"
    "p = joinPaths env containerURI (sl @ js_string extension)
       \<or> (\<exists>k. p = retry_path env containerURI (sl @ js_string extension) (uuid_v1 env k))"
    by simp_all
  from r(2) exists_fst_cong[OF f1, of env host p True]
  have i: "isl (fst (exists env host p True s))" by simp
  have e: "isl (fst (exists env host q True s)) \<Longrightarrow>
        fst (exists env host q True s) = Inl (HTTPError 404 ''Can't find file requested: '')" for q
    by (auto simp: exists_def get_def Let_def case_prod_unfold split: sum.splits)
  have a: "node_at (files s) f = None"
    if "mapUrlToFile env
          \<lparr>m_url = UrlObject \<lparr>req_url = None, req_hostname = host, req_path = p,
                                req_includeBody = False, req_range = None\<rparr>,
           m_contentType = None, m_createIfNotExists = False,
           m_searchIndex = Some True\<rparr> = Inr (f, ct)"
      and "fault env (EvStat f) = None" for f ct
    using i that
    by (auto simp: exists_def get_def stat_def fs_stat_def Let_def emit_simps
        split: option.splits)
  from e[OF i] r(1) f1 r(3) sl a show ?thesis
    by (auto simp: retry_path_def)
qed

text \<open>Witness for C5: \<open>/c/foo.ttl\<close> exists, and the allocator returns the prefixed
  candidate, which does not.\<close>

theorem getAvailablePath_not_existing_witness:
  "fst (exists stub_env ''h'' ''/c/foo.ttl'' True state0)
     \<noteq> Inl (HTTPError 404 ''Can't find file requested: '')
   \<and> getAvailablePath stub_env ''h'' ''/c/'' (Some ''foo'') (Some ''.ttl'') state0
     = Some (''/c/6c84fb90-foo.ttl'',
             snd (the (getAvailablePath stub_env ''h'' ''/c/'' (Some ''foo'') (Some ''.ttl'') state0)))
   \<and> fst (exists stub_env ''h'' ''/c/6c84fb90-foo.ttl'' True state0)
     = Inl (HTTPError 404 ''Can't find file requested: '')
   \<and> ''/c/6c84fb90-foo.ttl'' \<noteq> ''/c/foo.ttl''"
proof -
  have e: "fst (exists stub_env ''h'' ''/c/foo.ttl'' True state0)
     \<noteq> Inl (HTTPError 404 ''Can't find file requested: '')"
    by code_simp
  have g: "getAvailablePath stub_env ''h'' ''/c/'' (Some ''foo'') (Some ''.ttl'') state0
     = Some (''/c/6c84fb90-foo.ttl'',
             snd (the (getAvailablePath stub_env ''h'' ''/c/'' (Some ''foo'') (Some ''.ttl'') state0)))"
    by code_simp
  from getAvailablePath_not_existing[OF g] e g show ?thesis by blast
qed

subsection \<open>Deleting a container\<close>

lemma map_of_filter_within:
  "map_of (filter (\<lambda>kv. \<not> within d (fst kv)) fs) k = (if within d k then None else map_of fs k)"
  by (induction fs) auto

lemma node_at_None: "map_of fs (fs_key p) = None \<Longrightarrow> node_at fs p = None"
  by (simp add: node_at_def)

text \<open>
  Claim C6. For a \<open>deleteContainer\<close> of a directory that can be listed: when an entry
  other than the metadata suffix file and the ACL suffix file is present, the call
  fails with Conflict (409) and the filesystem is unchanged; when only those entries
  (or none) are present, either the call succeeds, nothing is left at or below the
  directory and every other entry of the disk is as before, or the removal failed and
  the call fails with the removal's error wrapped, a ServerError (500).
\<close>

theorem deleteContainer_only_when_empty:
  assumes dir: "node_at (files s) (with_slash directory) = Some Directory"
      and nofault: "fault env (EvReaddir (with_slash directory)) = None"
      and run: "deleteContainer env directory s = (r, s')"
  shows "(list_ex (\<lambda>file. file \<noteq> suffixMeta env \<and> file \<noteq> suffixAcl env)
            (dir_entries (files s) (with_slash directory)) \<longrightarrow>
            r = Inl (HTTPError 409 ''Container is not empty'') \<and> files s' = files s)
       \<and> (\<not> list_ex (\<lambda>file. file \<noteq> suffixMeta env \<and> file \<noteq> suffixAcl env)
            (dir_entries (files s) (with_slash directory)) \<longrightarrow>
            (r = Inr ()
             \<and> (\<forall>p. within (with_slash directory) (fs_key p) \<longrightarrow> node_at (files s') p = None)
             \<and> (\<forall>k. \<not> within (with_slash directory) k \<longrightarrow>
                    map_of (files s') k = map_of (files s) k))
            \<or> (\<exists>e. fault env (EvRimraf (with_slash directory)) = Some e
                 \<and> r = Inl (Wrapped e ''Failed to delete the container'')
                 \<and> status_of (Wrapped e ''Failed to delete the container'') = Some 500))"
proof -
  let ?d = "with_slash directory"
  let ?s1 = "emit (EvReaddir ?d) s"
  from dir nofault have rd: "fs_readdir env ?d s = (Inr (dir_entries (files s) ?d), ?s1)"
    by (simp add: fs_readdir_def Let_def emit_simps)
  show ?thesis
  proof (cases "list_ex (\<lambda>file. file \<noteq> suffixMeta env \<and> file \<noteq> suffixAcl env)
            (dir_entries (files s) ?d)")
    case True
    with rd run have "r = Inl (HTTPError 409 ''Container is not empty'')" "s' = ?s1"
      by (auto simp: deleteContainer_def Let_def)
    with True show ?thesis by (simp add: emit_simps)
  next
    case False
    show ?thesis
    proof (cases "fault env (EvRimraf ?d)")
      case None
      with rd run False have
        "r = Inr ()" "files s' = filter (\<lambda>kv. \<not> within ?d (fst kv)) (files s)"
        by (auto simp: deleteContainer_def Let_def fs_rimraf_def emit_simps)
      with False show ?thesis
        by (simp add: map_of_filter_within node_at_None)
    next
      case (Some e)
      with rd run False have "r = Inl (Wrapped e ''Failed to delete the container'')"
        by (auto simp: deleteContainer_def Let_def fs_rimraf_def emit_simps)
      with False Some show ?thesis by simp
    qed
  qed
qed

text \<open>Witness for C6: \<open>/data/c\<close> holds a document and stays; \<open>/data/e\<close> holds only the
  two suffix files and is removed with them.\<close>

theorem deleteContainer_only_when_empty_witness:
  "fst (deleteContainer stub_env ''/data/c'' state0) = Inl (HTTPError 409 ''Container is not empty'')
   \<and> files (snd (deleteContainer stub_env ''/data/c'' state0)) = files state0
   \<and> dir_entries (files state0) ''/data/e/'' = [''.meta'', ''.acl'']
   \<and> fst (deleteContainer stub_env ''/data/e'' state0) = Inr ()
   \<and> node_at (files (snd (deleteContainer stub_env ''/data/e'' state0))) ''/data/e'' = None
   \<and> node_at (files (snd (deleteContainer stub_env ''/data/e'' state0))) ''/data/e/.meta'' = None
   \<and> node_at (files (snd (deleteContainer stub_env ''/data/e'' state0))) ''/data/c/foo.ttl''
        = Some (File ''0123456789'')"
proof -
  have c1: "node_at (files state0) (with_slash ''/data/c'') = Some Directory" by code_simp
  have c2: "fault stub_env (EvReaddir (with_slash ''/data/c'')) = None" by code_simp
  have c3: "list_ex (\<lambda>file. file \<noteq> suffixMeta stub_env \<and> file \<noteq> suffixAcl stub_env)
              (dir_entries (files state0) (with_slash ''/data/c''))" by code_simp
  have e1: "node_at (files state0) (with_slash ''/data/e'') = Some Directory" by code_simp
  have e2: "fault stub_env (EvReaddir (with_slash ''/data/e'')) = None" by code_simp
  have e3: "\<not> list_ex (\<lambda>file. file \<noteq> suffixMeta stub_env \<and> file \<noteq> suffixAcl stub_env)
              (dir_entries (files state0) (with_slash ''/data/e''))" by code_simp
  have e4: "fault stub_env (EvRimraf (with_slash ''/data/e'')) = None" by code_simp
  have e5: "dir_entries (files state0) ''/data/e/'' = [''.meta'', ''.acl'']" by code_simp
  have w1: "within (with_slash ''/data/e'') (fs_key ''/data/e'')" by code_simp
  have w2: "within (with_slash ''/data/e'') (fs_key ''/data/e/.meta'')" by code_simp
  have w3: "node_at (files (snd (deleteContainer stub_env ''/data/e'' state0))) ''/data/c/foo.ttl''
        = Some (File ''0123456789'')" by code_simp
  from deleteContainer_only_when_empty[OF c1 c2 prod.collapse[symmetric]] c3
  have a: "fst (deleteContainer stub_env ''/data/c'' state0) = Inl (HTTPError 409 ''Container is not empty'')"
    "files (snd (deleteContainer stub_env ''/data/c'' state0)) = files state0"
    by simp_all
  from deleteContainer_only_when_empty[OF e1 e2 prod.collapse[symmetric]] e3 e4
  have b: "fst (deleteContainer stub_env ''/data/e'' state0) = Inr ()"
    "\<forall>p. within (with_slash ''/data/e'') (fs_key p) \<longrightarrow>
         node_at (files (snd (deleteContainer stub_env ''/data/e'' state0))) p = None"
    by simp_all
  from b(2) w1 w2 have
    "node_at (files (snd (deleteContainer stub_env ''/data/e'' state0))) ''/data/e'' = None"
    "node_at (files (snd (deleteContainer stub_env ''/data/e'' state0))) ''/data/e/.meta'' = None"
    by blast+
  with a b(1) e5 w3 show ?thesis by (intro conjI)
qed

subsection \<open>post\<close>

text \<open>
  Claim C7. For every \<open>post\<close> with a supplied (non-empty) slug: the slug is decoded
  first, and when the decoded slug holds \<open>/\<close>, \<open>|\<close> or \<open>:\<close> the call fails with BadRequest
  (400) and returns the state it was given, so no probe of the allocator, no mapping, no
  write and no other collaborator call took place.
\<close>

theorem post_rejects_forbidden_slug:
  assumes "opt_slug opts = Some sl" and "sl \<noteq> []"
      and "decodeURIComponent env sl = Inr d"
      and "forbidden_in_slug d"
  shows "post env host containerPath stream opts s =
           Some (Inl (HTTPError 400 ''The name of new file POSTed may not contain : | or /''), s)"
  using assms by (simp add: post_def prepare_slug_def truthy_def js_string_def)

text \<open>Witness for C7: the slug \<open>a/b\<close>, and the slug \<open>a%7Cb\<close>, whose escape decodes to
  \<open>|\<close>.\<close>

theorem post_rejects_forbidden_slug_witness:
  "post stub_env ''h'' ''/c/'' ''body''
     \<lparr>opt_container = False, opt_slug = Some ''a/b'', opt_extension = Some ''.ttl''\<rparr> state0
   = Some (Inl (HTTPError 400 ''The name of new file POSTed may not contain : | or /''), state0)
   \<and> post stub_env ''h'' ''/c/'' ''body''
     \<lparr>opt_container = True, opt_slug = Some ''a%7Cb'', opt_extension = None\<rparr> state0
   = Some (Inl (HTTPError 400 ''The name of new file POSTed may not contain : | or /''), state0)"
proof -
  have d1: "decodeURIComponent stub_env ''a/b'' = Inr ''a/b''" by code_simp
  have f1: "forbidden_in_slug ''a/b''" by code_simp
  have d2: "decodeURIComponent stub_env ''a%7Cb'' = Inr ''a|b''" by code_simp
  have f2: "forbidden_in_slug ''a|b''" by code_simp
  from post_rejects_forbidden_slug[where env = stub_env and sl = "''a/b''" and d = "''a/b''"
        and opts = "\<lparr>opt_container = False, opt_slug = Some ''a/b'', opt_extension = Some ''.ttl''\<rparr>"
        and host = "''h''" and containerPath = "''/c/''" and stream = "''body''" and s = state0]
      post_rejects_forbidden_slug[where env = stub_env and sl = "''a%7Cb''" and d = "''a|b''"
        and opts = "\<lparr>opt_container = True, opt_slug = Some ''a%7Cb'', opt_extension = None\<rparr>"
        and host = "''h''" and containerPath = "''/c/''" and stream = "''body''" and s = state0]
      d1 f1 d2 f2
  show ?thesis by simp
qed

text \<open>
  Claim C9. For every \<open>post\<close> with the container flag that returns a value: the
  allocator was called with the empty extension, whatever extension was passed; the
  creation on disk is the \<open>put\<close> to the identifier the mapper gives for the allocated
  path joined with the metadata suffix; and the value returned is the allocated
  path itself, not the metadata path, with the separator added when it is missing. The
  source leaves an empty allocated path as it is; every other returned value ends with
  the separator.
\<close>

theorem post_container:
  assumes c: "opt_container opts"
      and run: "post env host containerPath stream opts s = Some (Inr ret, s')"
  shows "\<exists>slug alloc s1 putUrl contentType.
           prepare_slug env (opt_slug opts) = Inr slug
         \<and> getAvailablePath env host containerPath slug (Some []) s = Some (alloc, s1)
         \<and> mapFileToUrl env (rootPath env @ path_join env alloc (suffixMeta env)) host
             = Inr (putUrl, contentType)
         \<and> put env (UrlString putUrl) stream (Some contentType)
             (emit (EvMapFileToUrl (rootPath env @ path_join env alloc (suffixMeta env)) host) s1)
             = (Inr (), s')
         \<and> ret = (if alloc \<noteq> [] \<and> \<not> endsWith alloc ''/'' then alloc @ ''/'' else alloc)
         \<and> (alloc \<noteq> [] \<longrightarrow> endsWith ret ''/'')"
proof -
  from run obtain slug where sl: "prepare_slug env (opt_slug opts) = Inr slug"
    by (cases "prepare_slug env (opt_slug opts)") (simp_all add: post_def)
  from run sl c obtain alloc s1 where
    ga: "getAvailablePath env host containerPath slug (Some []) s = Some (alloc, s1)"
    by (cases "getAvailablePath env host containerPath slug (Some []) s")
      (auto simp: post_def)
  let ?rp = "rootPath env @ path_join env alloc (suffixMeta env)"
  from run sl c ga obtain putUrl contentType where
    mf: "mapFileToUrl env ?rp host = Inr (putUrl, contentType)"
    by (cases "mapFileToUrl env ?rp host") (auto simp: post_def Let_def)
  obtain pr s3 where
    pt: "put env (UrlString putUrl) stream (Some contentType) (emit (EvMapFileToUrl ?rp host) s1)
          = (pr, s3)"
    by force
  from run sl c ga mf pt have r: "pr = Inr ()" "s3 = s'" "ret = returned_path True alloc"
    by (cases pr; simp add: post_def Let_def)+
  have e: "alloc \<noteq> [] \<longrightarrow> endsWith (returned_path True alloc) ''/''"
    by (simp add: returned_path_def endsWith_def)
  from sl ga mf pt r e show ?thesis
    by (simp add: returned_path_def)
qed

text \<open>Witness for C9: a container \<open>new\<close> under \<open>/c/\<close>, created through its \<open>.meta\<close>.\<close>

theorem post_container_witness:
  "post stub_env ''h'' ''/c/'' ''body''
      \<lparr>opt_container = True, opt_slug = Some ''new'', opt_extension = Some ''.ttl''\<rparr> state0
     = Some (Inr ''/c/new/'',
             snd (the (post stub_env ''h'' ''/c/'' ''body''
               \<lparr>opt_container = True, opt_slug = Some ''new'', opt_extension = Some ''.ttl''\<rparr>
               state0)))
   \<and> (\<exists>slug alloc s1 putUrl contentType.
           prepare_slug stub_env
             (opt_slug \<lparr>opt_container = True, opt_slug = Some ''new'', opt_extension = Some ''.ttl''\<rparr>)
             = Inr slug
         \<and> getAvailablePath stub_env ''h'' ''/c/'' slug (Some []) state0 = Some (alloc, s1)
         \<and> mapFileToUrl stub_env (rootPath stub_env @ path_join stub_env alloc (suffixMeta stub_env))
               ''h'' = Inr (putUrl, contentType)
         \<and> put stub_env (UrlString putUrl) ''body'' (Some contentType)
             (emit (EvMapFileToUrl (rootPath stub_env @ path_join stub_env alloc (suffixMeta stub_env))
                ''h'') s1)
             = (Inr (), snd (the (post stub_env ''h'' ''/c/'' ''body''
               \<lparr>opt_container = True, opt_slug = Some ''new'', opt_extension = Some ''.ttl''\<rparr>
               state0)))
         \<and> ''/c/new/'' = (if alloc \<noteq> [] \<and> \<not> endsWith alloc ''/'' then alloc @ ''/'' else alloc)
         \<and> (alloc \<noteq> [] \<longrightarrow> endsWith ''/c/new/'' ''/''))
   \<and> fst (the (getAvailablePath stub_env ''h'' ''/c/'' (Some ''new'') (Some []) state0)) = ''/c/new''
   \<and> node_at (files (snd (the (post stub_env ''h'' ''/c/'' ''body''
               \<lparr>opt_container = True, opt_slug = Some ''new'', opt_extension = Some ''.ttl''\<rparr>
               state0)))) ''/data/c/new/.meta'' = Some (File ''body'')
   \<and> node_at (files (snd (the (post stub_env ''h'' ''/c/'' ''body''
               \<lparr>opt_container = True, opt_slug = Some ''new'', opt_extension = Some ''.ttl''\<rparr>
               state0)))) ''/data/c/new/'' = Some Directory"
proof -
  let ?o = "\<lparr>opt_container = True, opt_slug = Some ''new'', opt_extension = Some ''.ttl''\<rparr>"
  have h1: "opt_container ?o" by simp
  have h2: "post stub_env ''h'' ''/c/'' ''body'' ?o state0
     = Some (Inr ''/c/new/'', snd (the (post stub_env ''h'' ''/c/'' ''body'' ?o state0)))"
    by code_simp
  have a: "fst (the (getAvailablePath stub_env ''h'' ''/c/'' (Some ''new'') (Some []) state0)) = ''/c/new''"
    by code_simp
  have m: "node_at (files (snd (the (post stub_env ''h'' ''/c/'' ''body'' ?o state0))))
             ''/data/c/new/.meta'' = Some (File ''body'')"
    by code_simp
  have d: "node_at (files (snd (the (post stub_env ''h'' ''/c/'' ''body'' ?o state0))))
             ''/data/c/new/'' = Some Directory"
    by code_simp
  note w = post_container[OF h1 h2]
  from h2 w a m d show ?thesis by (intro conjI)
qed

subsection \<open>The metadata of a container\<close>

lemma container_branch_meta_failure:
  assumes "mapFileToUrl env p (req_hostname options) = Inr (uri, ct)"
      and "readContainerMeta env uri (emit (EvMapFileToUrl p (req_hostname options)) s) = (Inl e, s3)"
  shows "get_container env options p s =
           (case listContainer env p uri [] (req_hostname options) s3 of
              (Inl e', s4) \<Rightarrow> (Inl e', s4)
            | (Inr data, s4) \<Rightarrow>
                (Inr \<lparr>r_stream = StreamBody data, r_contentType = ''text/turtle'',
                      r_container = True, r_contentRange = None, r_chunksize = None\<rparr>, s4))"
  using assms by (simp add: get_container_def Let_def)

text \<open>
  Claim C10. In a \<open>get\<close> with body on a container, when reading the container's
  metadata resource fails, with whatever error \<open>e\<close> (the file is absent, the lock is not
  obtained, the read fails), the error is dropped and the result is the listing
  made from the empty string as metadata: exactly what an empty metadata resource gives.
\<close>

theorem get_container_meta_failure_is_empty:
  assumes "req_includeBody options"
      and "mapUrlToFile env \<lparr>m_url = UrlObject options, m_contentType = None,
              m_createIfNotExists = False, m_searchIndex = Some searchIndex\<rparr> = Inr (p, ct)"
      and "stat env p (emit (EvMapUrlToFile \<lparr>m_url = UrlObject options, m_contentType = None,
              m_createIfNotExists = False, m_searchIndex = Some searchIndex\<rparr>) s) = (Inr st, s2)"
      and "isDirectory st"
      and "mapFileToUrl env p (req_hostname options) = Inr (uri, ct')"
      and "readContainerMeta env uri (emit (EvMapFileToUrl p (req_hostname options)) s2) = (Inl e, s3)"
  shows "get env options searchIndex s =
           (case listContainer env p uri [] (req_hostname options) s3 of
              (Inl e', s4) \<Rightarrow> (Inl e', s4)
            | (Inr data, s4) \<Rightarrow>
                (Inr \<lparr>r_stream = StreamBody data, r_contentType = ''text/turtle'',
                      r_container = True, r_contentRange = None, r_chunksize = None\<rparr>, s4))"
  using assms container_branch_meta_failure[of env p options uri ct' s2 e s3]
  by (simp add: get_def Let_def)

text \<open>Witness for C10: the metadata file of \<open>/data/e\<close> exists but its lock is held;
  the listing succeeds without the content of the metadata.\<close>

theorem get_container_meta_failure_is_empty_witness:
  "fst (get stub_env \<lparr>req_url = None, req_hostname = ''h'', req_path = ''/e/'',
              req_includeBody = True, req_range = None\<rparr> True
          (state0\<lparr>locks := {''/data/e/.meta''}\<rparr>))
   = Inr \<lparr>r_stream = StreamBody ''/e/.meta/e/.acl'', r_contentType = ''text/turtle'',
          r_container = True, r_contentRange = None, r_chunksize = None\<rparr>
   \<and> fst (readContainerMeta stub_env ''/e/'' (state0\<lparr>locks := {''/data/e/.meta''}\<rparr>))
       = Inl (StatuslessError ''Lock file is already being held'')"
proof -
  let ?o = "\<lparr>req_url = None, req_hostname = ''h'', req_path = ''/e/'',
              req_includeBody = True, req_range = None\<rparr>"
  let ?s = "state0\<lparr>locks := {''/data/e/.meta''}\<rparr>"
  let ?rq = "\<lparr>m_url = UrlObject ?o, m_contentType = None,
              m_createIfNotExists = False, m_searchIndex = Some True\<rparr>"
  let ?s2 = "snd (stat stub_env ''/data/e/'' (emit (EvMapUrlToFile ?rq) ?s))"
  let ?s3 = "snd (readContainerMeta stub_env ''/e/'' (emit (EvMapFileToUrl ''/data/e/'' ''h'') ?s2))"
  have h1: "req_includeBody ?o" by simp
  have h2: "mapUrlToFile stub_env ?rq = Inr (''/data/e/'', ''text/turtle'')" by code_simp
  have h3: "stat stub_env ''/data/e/'' (emit (EvMapUrlToFile ?rq) ?s)
              = (Inr \<lparr>isDirectory = True, st_size = 0\<rparr>, ?s2)" by code_simp
  have h4: "isDirectory \<lparr>isDirectory = True, st_size = 0\<rparr>" by simp
  have h5: "mapFileToUrl stub_env ''/data/e/'' (req_hostname ?o) = Inr (''/e/'', ''text/turtle'')"
    by code_simp
  have h6: "readContainerMeta stub_env ''/e/'' (emit (EvMapFileToUrl ''/data/e/'' (req_hostname ?o)) ?s2)
              = (Inl (StatuslessError ''Lock file is already being held''), ?s3)"
    by code_simp
  have v: "fst (case listContainer stub_env ''/data/e/'' ''/e/'' [] (req_hostname ?o) ?s3 of
              (Inl e', s4) \<Rightarrow> (Inl e', s4)
            | (Inr data, s4) \<Rightarrow>
                (Inr \<lparr>r_stream = StreamBody data, r_contentType = ''text/turtle'',
                      r_container = True, r_contentRange = None, r_chunksize = None\<rparr>, s4))
         = Inr \<lparr>r_stream = StreamBody ''/e/.meta/e/.acl'', r_contentType = ''text/turtle'',
          r_container = True, r_contentRange = None, r_chunksize = None\<rparr>"
    by code_simp
  have m: "fst (readContainerMeta stub_env ''/e/'' ?s)
       = Inl (StatuslessError ''Lock file is already being held'')"
    by code_simp
  from get_container_meta_failure_is_empty[OF h1 h2 h3 h4 h5 h6] v m
  show ?thesis by simp
qed

subsection \<open>Byte ranges\<close>

text \<open>How the document branch of \<open>get\<close> reads a range it parsed as two integers: a
  \<open>start\<close> or an \<open>end\<close> of zero makes \<open>start && end\<close> false, and the whole file is
  streamed.\<close>

lemma slice_bytes_spec:
  assumes "0 \<le> a" "a \<le> b" "b < int (length c)"
  shows "length (slice_bytes a b c) = nat (b - a + 1)"
    and "\<forall>i < nat (b - a + 1). slice_bytes a b c ! i = c ! (nat a + i)"
  using assms by (auto simp: slice_bytes_def)

lemma get_document_range:
  assumes rng: "req_range options = Some rng" "rng \<noteq> []"
      and isfile: "node_at (files s) p = Some (File c)"
      and nofault: "fault env (EvStatSync p) = None" "fault env (EvLock p) = None"
        "fault env (EvCreateReadStream p) = None"
      and free: "p \<notin> locks s"
      and parsed: "parse_range rng (length c) = (Num a, Num b, cs, cr)"
      and ok: "0 \<le> a" "a \<le> b"
  shows "fst (get_document env options p ct s) =
           Inr \<lparr>r_stream = StreamBody (if a = 0 \<or> b = 0 then c else slice_bytes a b c),
                r_contentType = ct, r_container = False,
                r_contentRange = Some cr, r_chunksize = Some cs\<rparr>"
  using assms
  by (simp add: get_document_def fs_statSync_def lock_def createReadStream_def Let_def
      emit_simps stats_of_def read_options_def releaseLock_simps truthy_def js_string_def)

lemma get_range_from_two:
  "fst (get stub_env \<lparr>req_url = None, req_hostname = ''h'', req_path = ''/c/foo.ttl'',
                      req_includeBody = True, req_range = Some ''bytes=2-4''\<rparr> True state0)
   = Inr \<lparr>r_stream = StreamBody ''234'', r_contentType = ''text/turtle'',
          r_container = False, r_contentRange = Some ''bytes 2-4/10'',
          r_chunksize = Some (Num 3)\<rparr>"
  by code_simp

text \<open>
  Claim C2, at \<open>start = 0\<close>. On the document of 10 bytes \<open>0123456789\<close>, the request
  \<open>bytes=0-4\<close> reports \<open>chunksize\<close> 5 and the content range \<open>bytes 0-4/10\<close>, and the
  stream yields all 10 bytes instead of the bytes at the offsets 0 to 4.
\<close>

theorem get_range_from_zero_streams_whole_file:
  "fst (get stub_env \<lparr>req_url = None, req_hostname = ''h'', req_path = ''/c/foo.ttl'',
                      req_includeBody = True, req_range = Some ''bytes=0-4''\<rparr> True state0)
   = Inr \<lparr>r_stream = StreamBody ''0123456789'', r_contentType = ''text/turtle'',
          r_container = False, r_contentRange = Some ''bytes 0-4/10'',
          r_chunksize = Some (Num 5)\<rparr>"
  by code_simp

end
